theory Spec2Isabelle
  imports Complex_Main "HOL-Library.Log_Nat" "HOL-Library.AList" "HOL-Library.Code_Target_Numeral"
begin

section \<open>JavaScript numbers\<close>

text \<open>
  A JavaScript \<open>number\<close> is an IEEE 754 binary64 value. A finite one is a rational
  \<open>m * 2 ^ q\<close> with \<open>\<bar>m\<bar> < 2 ^ 53\<close> and \<open>- 1074 \<le> q \<le> 971\<close>; it is carried here by
  its exact value. Negative zero is identified with zero: every operation of
  \<open>tron.ts\<close> that receives one (\<open>| 0\<close>, \<open>new BigNumber\<close>, a comparison) treats both alike.
  The same datatype carries the value of a \<open>BigNumber\<close> (an exact decimal, \<open>NaN\<close> or an
  infinity).
\<close>

datatype number = Fin rat | PosInf | NegInf | NaN

text \<open>
  Where the code reads a property that an object may not have, the value is a number or
  \<open>undefined\<close>.
\<close>

datatype jsvalue = Undefined | Number number

text \<open>\<open>floor_log2 a\<close> is the binary exponent of a positive rational: \<open>2 ^ e \<le> a < 2 ^ (e + 1)\<close>.\<close>

definition floor_log2 :: "rat \<Rightarrow> int" where
  "floor_log2 a =
     (case quotient_of a of (n, d) \<Rightarrow>
        (let k = bitlen n - bitlen d in if 2 powi k \<le> a then k else k - 1))"

text \<open>Rounding a rational to the nearest integer, ties to the even one.\<close>

definition round_half_even :: "rat \<Rightarrow> int" where
  "round_half_even y =
     (let f = \<lfloor>y\<rfloor>; r = y - of_int f
      in if r < 1 / 2 then f else if 1 / 2 < r then f + 1 else if even f then f else f + 1)"

text \<open>
  \<open>round_double\<close> is the rounding every binary64 operation applies to its exact result
  (roundTiesToEven): 53 significant bits, the exponent of the last bit no smaller than
  \<open>- 1074\<close> (the subnormal range), and an infinity from \<open>2 ^ 1024\<close> on.
\<close>

definition round_double :: "rat \<Rightarrow> number" where
  "round_double y =
     (if y = 0 then Fin 0
      else
        (let a = \<bar>y\<bar>;
             q = max (floor_log2 a - 52) (- 1074);
             z = of_int (round_half_even (a / 2 powi q)) * 2 powi q
         in if 2 powi 1024 \<le> z then (if 0 < y then PosInf else NegInf)
            else Fin (sgn y * z)))"

text \<open>The operator \<open>*\<close> on numbers.\<close>

fun js_mul :: "number \<Rightarrow> number \<Rightarrow> number" where
  "js_mul (Fin a) (Fin b) = round_double (a * b)"
| "js_mul NaN _ = NaN"
| "js_mul _ NaN = NaN"
| "js_mul (Fin a) PosInf = (if a = 0 then NaN else if 0 < a then PosInf else NegInf)"
| "js_mul (Fin a) NegInf = (if a = 0 then NaN else if 0 < a then NegInf else PosInf)"
| "js_mul PosInf (Fin b) = (if b = 0 then NaN else if 0 < b then PosInf else NegInf)"
| "js_mul NegInf (Fin b) = (if b = 0 then NaN else if 0 < b then NegInf else PosInf)"
| "js_mul PosInf PosInf = PosInf"
| "js_mul PosInf NegInf = NegInf"
| "js_mul NegInf PosInf = NegInf"
| "js_mul NegInf NegInf = PosInf"

text \<open>
  \<open>Math.pow(10, n)\<close> for a natural exponent: the double nearest to \<open>10 ^ n\<close>
  (\<open>10 ^ n\<close> itself up to \<open>n = 22\<close>).
\<close>

definition Math_pow10 :: "nat \<Rightarrow> number" where
  "Math_pow10 n = round_double (10 ^ n)"

text \<open>The integer part of a rational, towards zero.\<close>

definition Math_trunc :: "rat \<Rightarrow> int" where
  "Math_trunc r = (if 0 \<le> r then \<lfloor>r\<rfloor> else - \<lfloor>- r\<rfloor>)"

text \<open>
  \<open>x | 0\<close> is the abstract operation ToInt32 of ECMAScript: \<open>NaN\<close> and the infinities
  give 0; a finite value is truncated towards zero and reduced modulo \<open>2 ^ 32\<close> into
  the signed 32-bit range.
\<close>

fun ToInt32 :: "number \<Rightarrow> int" where
  "ToInt32 (Fin r) =
     (let m = Math_trunc r mod 2 ^ 32 in if 2 ^ 31 \<le> m then m - 2 ^ 32 else m)"
| "ToInt32 _ = 0"

section \<open>Unit conversion\<close>

text \<open>\<^verbatim>\<open>parseTrx = (trx) => (trx * Math.pow(10, 6)) | 0\<close>\<close>

definition parseTrx :: "number \<Rightarrow> number" where
  "parseTrx trx = Fin (of_int (ToInt32 (js_mul trx (Math_pow10 6))))"


subsection \<open>bignumber.js\<close>

text \<open>
  \<open>new BigNumber(v)\<close> of a number reads its decimal string \<open>String(v)\<close>. For a finite
  double \<open>x\<close> that string denotes the decimal \<open>s * 10 ^ t\<close> with the fewest digits
  \<open>s\<close> among those that round to \<open>x\<close>, and among these the one nearest to \<open>x\<close>
  (\<open>Number::toString\<close> of ECMAScript); whether it is printed with an exponent or not,
  the \<open>BigNumber\<close> is that decimal.

  \<open>floor_log10 a\<close> is the decimal exponent of a positive rational:
  \<open>10 ^ e \<le> a < 10 ^ (e + 1)\<close>.
\<close>

definition floor_log10 :: "rat \<Rightarrow> int" where
  "floor_log10 a =
     (case quotient_of a of (n, d) \<Rightarrow>
        (let k = int (floorlog 10 (nat n)) - int (floorlog 10 (nat d))
         in if 10 powi k \<le> a then k else k - 1))"

text \<open>
  The decimals of \<open>k\<close> digits next to a positive \<open>x\<close> are \<open>s * 10 ^ t\<close> just below
  and \<open>(s + 1) * 10 ^ t\<close> just above. \<open>decimal_of_digits x k\<close> is the one that rounds
  to \<open>x\<close>, the nearer one when both do (the even \<open>s\<close> when they are as near), and
  nothing when neither does.
\<close>

definition decimal_of_digits :: "rat \<Rightarrow> nat \<Rightarrow> rat option" where
  "decimal_of_digits x k =
     (let t = floor_log10 x + 1 - int k;
          s = \<lfloor>x / 10 powi t\<rfloor>;
          lo = of_int s * 10 powi t;
          hi = of_int (s + 1) * 10 powi t;
          lo_ok = (round_double lo = Fin x);
          hi_ok = (round_double hi = Fin x)
      in if lo_ok \<and> hi_ok then
           Some (if x - lo < hi - x \<or> (x - lo = hi - x \<and> even s) then lo else hi)
         else if lo_ok then Some lo
         else if hi_ok then Some hi
         else None)"

text \<open>The first of the given numbers of digits that has such a decimal gives it.\<close>

fun shortest_decimal :: "rat \<Rightarrow> nat list \<Rightarrow> rat" where
  "shortest_decimal x [] = x"
| "shortest_decimal x (k # ks) =
     (case decimal_of_digits x k of Some c \<Rightarrow> c | None \<Rightarrow> shortest_decimal x ks)"

text \<open>
  The decimal that \<open>String(x)\<close> denotes. An integer of at most 53 bits is printed
  digit by digit; any other double takes at most 17 digits.
\<close>

definition String_value :: "rat \<Rightarrow> rat" where
  "String_value x =
     (if of_int \<lfloor>x\<rfloor> = x \<and> \<bar>x\<bar> \<le> 2 ^ 53 then x
      else sgn x * shortest_decimal \<bar>x\<bar> [1..<18])"

text \<open>\<open>new BigNumber(undefined)\<close> is \<open>NaN\<close>.\<close>

fun BigNumber :: "jsvalue \<Rightarrow> number" where
  "BigNumber (Number (Fin x)) = Fin (String_value x)"
| "BigNumber (Number v) = v"
| "BigNumber Undefined = NaN"

text \<open>
  \<open>x.div(y)\<close> rounds the quotient to \<open>DECIMAL_PLACES = 20\<close> places with
  \<open>ROUND_HALF_UP\<close> (half away from zero), the defaults, which this module never changes.
\<close>

definition round_half_up_20 :: "rat \<Rightarrow> rat" where
  "round_half_up_20 r = sgn r * of_int \<lfloor>\<bar>r\<bar> * 10 ^ 20 + 1 / 2\<rfloor> / 10 ^ 20"

fun BigNumber_div :: "number \<Rightarrow> number \<Rightarrow> number" where
  "BigNumber_div (Fin a) (Fin b) =
     (if b = 0 then (if a = 0 then NaN else if 0 < a then PosInf else NegInf)
      else Fin (round_half_up_20 (a / b)))"
| "BigNumber_div NaN _ = NaN"
| "BigNumber_div _ NaN = NaN"
| "BigNumber_div (Fin a) PosInf = Fin 0"
| "BigNumber_div (Fin a) NegInf = Fin 0"
| "BigNumber_div PosInf (Fin b) = (if 0 \<le> b then PosInf else NegInf)"
| "BigNumber_div NegInf (Fin b) = (if 0 \<le> b then NegInf else PosInf)"
| "BigNumber_div PosInf PosInf = NaN"
| "BigNumber_div PosInf NegInf = NaN"
| "BigNumber_div NegInf PosInf = NaN"
| "BigNumber_div NegInf NegInf = NaN"

fun BigNumber_minus :: "number \<Rightarrow> number \<Rightarrow> number" where
  "BigNumber_minus (Fin a) (Fin b) = Fin (a - b)"
| "BigNumber_minus NaN _ = NaN"
| "BigNumber_minus _ NaN = NaN"
| "BigNumber_minus PosInf PosInf = NaN"
| "BigNumber_minus NegInf NegInf = NaN"
| "BigNumber_minus PosInf _ = PosInf"
| "BigNumber_minus NegInf _ = NegInf"
| "BigNumber_minus (Fin a) PosInf = NegInf"
| "BigNumber_minus (Fin a) NegInf = PosInf"

text \<open>\<open>x.gte(y)\<close>: false as soon as one side is \<open>NaN\<close>.\<close>

fun BigNumber_gte :: "number \<Rightarrow> number \<Rightarrow> bool" where
  "BigNumber_gte NaN _ = False"
| "BigNumber_gte _ NaN = False"
| "BigNumber_gte (Fin a) (Fin b) = (b \<le> a)"
| "BigNumber_gte PosInf _ = True"
| "BigNumber_gte _ NegInf = True"
| "BigNumber_gte _ _ = False"

text \<open>
  \<open>parseFloat(x.toFixed())\<close>: \<open>toFixed\<close> writes the decimal out in full and
  \<open>parseFloat\<close> reads it back as the nearest double.
\<close>

fun parseFloat_toFixed :: "number \<Rightarrow> number" where
  "parseFloat_toFixed (Fin r) = round_double r"
| "parseFloat_toFixed v = v"

text \<open>
  \<^verbatim>\<open>sunToTrx = (sun) => parseFloat(new BigNumber(sun).div(new BigNumber(Math.pow(10, 6))).toFixed())\<close>
\<close>

definition sunToTrx :: "jsvalue \<Rightarrow> number" where
  "sunToTrx sun =
     parseFloat_toFixed (BigNumber_div (BigNumber sun) (BigNumber (Number (Math_pow10 6))))"

subsection \<open>parseInt\<close>

text \<open>
  \<open>parseInt(s)\<close> with no radix: leading white space is skipped, then an optional sign,
  then an optional \<open>0x\<close> that selects radix 16, then the longest run of digits; no digit
  gives \<open>NaN\<close>. Characters are bytes here, so only the ASCII white space is recognised.
\<close>

definition is_white_space :: "char \<Rightarrow> bool" where
  "is_white_space c = ((of_char c :: nat) \<in> {9, 10, 11, 12, 13, 32})"

definition digit_value :: "nat \<Rightarrow> char \<Rightarrow> nat option" where
  "digit_value R c =
     (let n = (of_char c :: nat);
          v = (if 48 \<le> n \<and> n \<le> 57 then Some (n - 48)
               else if 97 \<le> n \<and> n \<le> 122 then Some (n - 87)
               else if 65 \<le> n \<and> n \<le> 90 then Some (n - 55)
               else None)
      in case v of None \<Rightarrow> None | Some d \<Rightarrow> if d < R then Some d else None)"

fun digits_value :: "nat \<Rightarrow> nat \<Rightarrow> string \<Rightarrow> nat" where
  "digits_value R acc [] = acc"
| "digits_value R acc (c # cs) =
     (case digit_value R c of None \<Rightarrow> acc | Some d \<Rightarrow> digits_value R (acc * R + d) cs)"

definition parseInt :: "string \<Rightarrow> number" where
  "parseInt s =
     (let S = dropWhile is_white_space s;
          sign = (if take 1 S = ''-'' then - 1 else (1::int));
          S = (if take 1 S = ''-'' \<or> take 1 S = ''+'' then drop 1 S else S);
          R = (if take 2 S = ''0x'' \<or> take 2 S = ''0X'' then 16 else (10::nat));
          S = (if R = 16 then drop 2 S else S)
      in case S of
           [] \<Rightarrow> NaN
         | c # _ \<Rightarrow>
             (if digit_value R c = None then NaN
              else round_double (of_int (sign * int (digits_value R 0 S)))))"

section \<open>Collaborators: the remote service and the wallet library\<close>

text \<open>
  The module delegates to \<open>fetch\<close> against the TronGrid service and to the wallet
  library \<open>@cobo/tron\<close>. Both are parameters of the model, collected in an
  environment, and what the module asks of them is recorded as a list of events. What is
  taken for granted about them:
  \<^item> an answer of the service has the shape that the code destructures, so it is a
    record here (an answer of another shape would make the code throw a \<open>TypeError\<close>,
    a case left out);
  \<^item> the balance of an account record is a number, the double that the answer
    is parsed to, or absent; \<open>decimals\<close> is a natural number; a token value is a string;
  \<^item> the wallet library is a function of its arguments;
  \<^item> an absent argument is \<open>None\<close>.
\<close>

text \<open>
  A failure is either an \<open>Error\<close> that \<open>tron.ts\<close> throws itself, with its message, or
  whatever a collaborator (\<open>fetch\<close>, \<open>response.json\<close>, the wallet library) threw, which
  the module never catches.
\<close>

datatype error = Error string | Thrown string

text \<open>
  Opaque payloads of the remote service, and the objects made of them (where a property
  may have been set to \<open>undefined\<close>).
\<close>

datatype json =
    JUndefined | JNull | JBool bool | JNumber number | JString string
  | JArray "json list" | JObject "(string \<times> json) list"

type_synonym object = "(string \<times> json) list"

record Wallet =
  address :: string
  privateKey :: string

text \<open>The wallet object of the library, with what its two getters return.\<close>

record wallet_object =
  getAddress :: string
  getTronPrivateKey :: string

record BlockReference =
  hash :: string
  timestamp :: int
  number :: int

text \<open>The answer of \<open>wallet/getnowblock\<close>, as \<open>getLatestBlock\<close> destructures it.\<close>

record raw_data =
  raw_timestamp :: int
  raw_number :: int

record nowblock =
  blockID :: string
  block_header_raw_data :: raw_data

text \<open>
  An account record of \<open>v1/accounts/<address>\<close>: the balance in sun, which a record
  may lack, and one object per token, in the order of its keys, whose first key is the
  contract address.
\<close>

record account =
  balance :: jsvalue
  trc20 :: "(string \<times> string) list list"

text \<open>The answer of the two transaction listings.\<close>

record listing =
  data :: "json list"
  success :: bool
  error :: string

record transaction =
  hex :: string

record Amount =
  sun :: jsvalue
  trx :: number

text \<open>
  What the module does to the outside, in order: an HTTP request (link, method, body,
  headers), and the two transaction constructors of the wallet library with their
  arguments.
\<close>

datatype event =
    Fetch string string "(string \<times> string) list option" "(string \<times> string) list"
  | GenerateTransaction wallet_object string number string BlockReference
  | TransferTRC20Token wallet_object string string jsvalue BlockReference

text \<open>
  The remote service answers a request (link, method, body) given everything that
  happened before, with a parsed answer or a failure of the transport.
\<close>

type_synonym 'r remote =
  "event list \<Rightarrow> string \<Rightarrow> string \<Rightarrow> (string \<times> string) list option \<Rightarrow> string + 'r"

record env =
  TRONGRID_API_KEY :: "string option"
  getnowblock :: "nowblock remote"
  accounts :: "account list remote"
  transactions :: "listing remote"
  broadcasthex :: "object remote"
  fromTronPrivateKey :: "string \<Rightarrow> string + wallet_object"
  generateTransaction ::
    "wallet_object \<Rightarrow> string \<Rightarrow> number \<Rightarrow> string \<Rightarrow> BlockReference \<Rightarrow> string + transaction"
  transferTRC20Token ::
    "wallet_object \<Rightarrow> string \<Rightarrow> string \<Rightarrow> jsvalue \<Rightarrow> BlockReference \<Rightarrow> string + transaction"

text \<open>
  An \<open>async\<close> function takes the events so far and gives its result, or the failure
  it rejects with, and the events extended.
\<close>

type_synonym 'a promise = "event list \<Rightarrow> (error + 'a) \<times> event list"

definition resolve :: "'a \<Rightarrow> 'a promise" where
  "resolve x = (\<lambda>s. (Inr x, s))"

definition reject :: "error \<Rightarrow> 'a promise" where
  "reject e = (\<lambda>s. (Inl e, s))"

definition await :: "'a promise \<Rightarrow> ('a \<Rightarrow> 'b promise) \<Rightarrow> 'b promise" where
  "await m f = (\<lambda>s. case m s of (Inl e, s') \<Rightarrow> (Inl e, s') | (Inr x, s') \<Rightarrow> f x s')"

text \<open>A synchronous call into a collaborator: its failure is thrown on.\<close>

definition call :: "string + 'a \<Rightarrow> ('a \<Rightarrow> 'b promise) \<Rightarrow> 'b promise" where
  "call r f = (case r of Inl e \<Rightarrow> reject (Thrown e) | Inr x \<Rightarrow> f x)"

text \<open>The same, recorded as an event.\<close>

definition construct :: "event \<Rightarrow> string + 'a \<Rightarrow> ('a \<Rightarrow> 'b promise) \<Rightarrow> 'b promise" where
  "construct ev r f = (\<lambda>s. call r f (s @ [ev]))"

text \<open>A default parameter value applies when the argument is \<open>undefined\<close>.\<close>

definition default_to :: "'a \<Rightarrow> 'a option \<Rightarrow> 'a" where
  "default_to d x = (case x of None \<Rightarrow> d | Some v \<Rightarrow> v)"

text \<open>A string is truthy unless it is \<open>undefined\<close>, \<open>null\<close> or empty.\<close>

definition truthy :: "string option \<Rightarrow> bool" where
  "truthy x = (case x of None \<Rightarrow> False | Some v \<Rightarrow> v \<noteq> [])"


section \<open>The module \<open>src/crypto/tron.ts\<close>\<close>

text \<open>
  Each function below is the function of that name in \<open>tron.ts\<close>, statement by
  statement, with the environment as its first argument. Three parameters are renamed,
  since the record fields above have their names: \<open>privateKey\<close> is \<open>key\<close>, the
  \<open>address\<close> of a balance query is \<open>addr\<close>, and the \<open>amount\<close> in display units, which the
  code binds to \<open>trx\<close>, is \<open>trx_amount\<close>. A transfer's \<open>address\<close>, which the code binds
  to \<open>to\<close>, is \<open>to\<close>.
\<close>

subsection \<open>Requests\<close>

definition getTronGridLink :: "env \<Rightarrow> string option \<Rightarrow> error + string" where
  "getTronGridLink env network =
     (let network = default_to ''mainnet'' network;
          subdomain =
            (if network = ''shasta'' then ''api.shasta''
             else if network = ''mainnet'' then ''api''
             else network)
      in if \<not> truthy (TRONGRID_API_KEY env) then Inl (Error ''Please provide TRONGRID_API_KEY'')
         else Inr (''https://'' @ subdomain @ ''.trongrid.io''))"

text \<open>
  \<open>requestTronGrid\<close> builds the link, sends the request and parses the answer; \<open>remote\<close>
  is the service behind the endpoint that \<open>url\<close> names.
\<close>

definition requestTronGrid ::
  "env \<Rightarrow> 'r remote \<Rightarrow> string option \<Rightarrow> string \<Rightarrow> string option \<Rightarrow>
   (string \<times> string) list option \<Rightarrow> 'r promise"
where
  "requestTronGrid env remote network url method body =
     (let method = default_to ''get'' method
      in case getTronGridLink env network of
           Inl e \<Rightarrow> reject e
         | Inr baseUrl \<Rightarrow>
             (let link = baseUrl @ ''/'' @ url;
                  headers =
                    [(''content-type'', ''application/json''),
                     (''TRON-PRO-API-KEY'', default_to [] (TRONGRID_API_KEY env))]
              in (\<lambda>s. (case remote s link method body of
                          Inl e \<Rightarrow> Inl (Thrown e)
                        | Inr r \<Rightarrow> Inr r,
                        s @ [Fetch link method body headers]))))"

definition getLatestBlock :: "env \<Rightarrow> string option \<Rightarrow> BlockReference promise" where
  "getLatestBlock env network =
     (let network = default_to ''mainnet'' network
      in await (requestTronGrid env (getnowblock env) (Some network) ''wallet/getnowblock''
                  None None)
           (\<lambda>r. resolve
                  \<lparr>hash = blockID r,
                   timestamp = raw_timestamp (block_header_raw_data r),
                   number = raw_number (block_header_raw_data r)\<rparr>))"

definition broadcastTransaction :: "env \<Rightarrow> string option \<Rightarrow> transaction \<Rightarrow> object promise" where
  "broadcastTransaction env network transaction =
     (let network = default_to ''mainnet'' network
      in requestTronGrid env (broadcasthex env) (Some network) ''wallet/broadcasthex''
           (Some ''post'') (Some [(''transaction'', hex transaction)]))"

subsection \<open>Wallets\<close>

definition importTrxAddress :: "env \<Rightarrow> string \<Rightarrow> error + Wallet" where
  "importTrxAddress env key =
     (case fromTronPrivateKey env key of
        Inl e \<Rightarrow> Inl (Thrown e)
      | Inr wallet \<Rightarrow> Inr \<lparr>address = getAddress wallet, privateKey = getTronPrivateKey wallet\<rparr>)"

subsection \<open>Balances\<close>

definition getTrxBalance :: "env \<Rightarrow> string \<Rightarrow> string option \<Rightarrow> Amount promise" where
  "getTrxBalance env addr network =
     (let network = default_to ''mainnet'' network
      in await (requestTronGrid env (accounts env) (Some network) (''v1/accounts/'' @ addr)
                  None None)
           (\<lambda>data.
              if length data = 0 then resolve \<lparr>sun = Number (Fin 0), trx = Fin 0\<rparr>
              else
                (let sun = balance (data ! 0);
                     trx = sunToTrx sun
                 in resolve \<lparr>sun = sun, trx = trx\<rparr>)))"

text \<open>
  The loop of \<open>getTRC20Balance\<close> over the token list, from \<open>index\<close> on.
  \<open>Object.keys(token)[0]\<close> is the first key of the token object, \<open>undefined\<close> for an
  object with no key, which equals no contract address.
\<close>

function getTRC20Balance_loop ::
  "(string \<times> string) list list \<Rightarrow> string \<Rightarrow> nat \<Rightarrow> Amount"
where
  "getTRC20Balance_loop tokens contractAddress index =
     (if index < length tokens then
        (let token = tokens ! index
         in case token of
              [] \<Rightarrow> getTRC20Balance_loop tokens contractAddress (index + 1)
            | (tokenContractAddress, v) # _ \<Rightarrow>
                if tokenContractAddress = contractAddress then
                  (let sun = parseInt v;
                       trx = parseFloat_toFixed
                               (BigNumber_div (BigNumber (Number sun))
                                  (BigNumber (Number (Math_pow10 6))))
                   in \<lparr>sun = Number sun, trx = trx\<rparr>)
                else getTRC20Balance_loop tokens contractAddress (index + 1))
      else \<lparr>sun = Number (Fin 0), trx = Fin 0\<rparr>)"
  by pat_completeness auto
termination
  by (relation "measure (\<lambda>(tokens, contractAddress, index). length tokens - index)") auto

declare getTRC20Balance_loop.simps [simp del]

definition getTRC20Balance ::
  "env \<Rightarrow> string \<Rightarrow> string \<Rightarrow> nat \<Rightarrow> string option \<Rightarrow> Amount promise"
where
  "getTRC20Balance env addr contractAddress decimals network =
     (let network = default_to ''mainnet'' network
      in await (requestTronGrid env (accounts env) (Some network) (''v1/accounts/'' @ addr)
                  None None)
           (\<lambda>data.
              if length data = 0 then resolve \<lparr>sun = Number (Fin 0), trx = Fin 0\<rparr>
              else
                (let tokens = trc20 (data ! 0)
                 in if length tokens = 0 then resolve \<lparr>sun = Number (Fin 0), trx = Fin 0\<rparr>
                    else resolve (getTRC20Balance_loop tokens contractAddress 0))))"

subsection \<open>Transfers\<close>

definition sendTrx ::
  "env \<Rightarrow> string \<Rightarrow> string \<Rightarrow> number \<Rightarrow> string option \<Rightarrow> object promise"
where
  "sendTrx env key to trx_amount network =
     (let network = default_to ''mainnet'' network
      in call (fromTronPrivateKey env key) (\<lambda>wallet.
           let addr = getAddress wallet;
               amount = parseTrx trx_amount
           in await (getLatestBlock env (Some network)) (\<lambda>latestBlock.
              await (getTrxBalance env addr (Some network)) (\<lambda>b.
                let balance = sun b
                in if BigNumber_gte (BigNumber (Number amount)) (BigNumber balance)
                   then reject (Error ''Insufficient balance'')
                   else
                     construct (GenerateTransaction wallet to amount ''TRX'' latestBlock)
                       (generateTransaction env wallet to amount ''TRX'' latestBlock)
                       (\<lambda>transaction.
                          broadcastTransaction env (Some network) transaction)))))"

definition sendTRC20Token ::
  "env \<Rightarrow> string \<Rightarrow> string \<Rightarrow> number \<Rightarrow> string \<Rightarrow> nat \<Rightarrow> string option \<Rightarrow> object promise"
where
  "sendTRC20Token env to contractAddress trx_amount key decimals network =
     (let network = default_to ''mainnet'' network
      in call (fromTronPrivateKey env key) (\<lambda>wallet.
           let addr = getAddress wallet;
               amount = js_mul trx_amount (Math_pow10 decimals)
           in await (getLatestBlock env (Some network)) (\<lambda>latestBlock.
              await (getTRC20Balance env addr contractAddress decimals (Some network)) (\<lambda>b.
                let balance = sun b
                in if BigNumber_gte (BigNumber (Number amount)) (BigNumber balance)
                   then reject (Error ''Insufficient balance'')
                   else
                     construct
                       (TransferTRC20Token wallet contractAddress to (Number amount) latestBlock)
                       (transferTRC20Token env wallet contractAddress to (Number amount)
                          latestBlock)
                       (\<lambda>transaction.
                          broadcastTransaction env (Some network) transaction)))))"

subsection \<open>Transaction listings\<close>

definition getTrxTransactions :: "env \<Rightarrow> string \<Rightarrow> string option \<Rightarrow> json list promise" where
  "getTrxTransactions env addr network =
     (let network = default_to ''mainnet'' network;
          url = ''v1/accounts/'' @ addr @ ''/transactions''
      in await (requestTronGrid env (transactions env) (Some network) url None None)
           (\<lambda>r. if \<not> success r then reject (Error (error r)) else resolve (data r)))"

definition getTrc20Transactions :: "env \<Rightarrow> string \<Rightarrow> string option \<Rightarrow> json list promise" where
  "getTrc20Transactions env addr network =
     (let network = default_to ''mainnet'' network;
          url = ''v1/accounts/'' @ addr @ ''/transactions/trc20''
      in await (requestTronGrid env (transactions env) (Some network) url None None)
           (\<lambda>r. if \<not> success r then reject (Error (error r)) else resolve (data r)))"

subsection \<open>Drains\<close>

text \<open>
  \<open>{...trx, amount}\<close>: the properties of \<open>trx\<close> in their order, with \<open>amount\<close> set
  (replaced in place when \<open>trx\<close> has one already, added last otherwise).
\<close>

definition with_amount :: "object \<Rightarrow> jsvalue \<Rightarrow> object" where
  "with_amount receipt amount =
     AList.update ''amount''
       (case amount of Undefined \<Rightarrow> JUndefined | Number v \<Rightarrow> JNumber v) receipt"

definition drainTrx :: "env \<Rightarrow> string \<Rightarrow> string \<Rightarrow> string option \<Rightarrow> object promise" where
  "drainTrx env key to network =
     (let network = default_to ''mainnet'' network
      in call (fromTronPrivateKey env key) (\<lambda>wallet.
           let addr = getAddress wallet
           in await (getLatestBlock env (Some network)) (\<lambda>latestBlock.
              await (getTrxBalance env addr (Some network)) (\<lambda>b.
                let amount =
                      BigNumber_minus (BigNumber (sun b)) (BigNumber (Number (Math_pow10 6)))
                in construct (GenerateTransaction wallet to amount ''TRX'' latestBlock)
                     (generateTransaction env wallet to amount ''TRX'' latestBlock)
                     (\<lambda>transaction.
                        await (broadcastTransaction env (Some network) transaction) (\<lambda>trx.
                          resolve (with_amount trx (Number amount))))))))"

definition drainTRC20Token ::
  "env \<Rightarrow> string \<Rightarrow> string \<Rightarrow> string \<Rightarrow> nat \<Rightarrow> string option \<Rightarrow> string option \<Rightarrow>
   object promise"
where
  "drainTRC20Token env to contractAddress key decimals network backer =
     (let network = default_to ''mainnet'' network
      in call (fromTronPrivateKey env key) (\<lambda>wallet.
           let addr = getAddress wallet
           in await (getLatestBlock env (Some network)) (\<lambda>latestBlock.
              await (getTRC20Balance env addr contractAddress decimals (Some network)) (\<lambda>b.
                let amount = sun b
                in await
                     (if truthy backer then
                        (case importTrxAddress env key of
                           Inl e \<Rightarrow> reject e
                         | Inr w \<Rightarrow>
                             await (sendTrx env (default_to [] backer) (address w) (Fin 1)
                                      (Some network))
                               (\<lambda>_. resolve ()))
                      else resolve ())
                     (\<lambda>_.
                        construct
                          (TransferTRC20Token wallet contractAddress to amount latestBlock)
                          (transferTRC20Token env wallet contractAddress to amount latestBlock)
                          (\<lambda>transaction.
                             await (broadcastTransaction env (Some network) transaction)
                               (\<lambda>trx. resolve (with_amount trx amount))))))))"

section \<open>Notions of the specification\<close>

text \<open>
  The token entry in the words of the specification: scan the token list of the first
  account record for the first entry whose contract address is the requested one,
  character for character. There is none when there is no record, no entry, or no entry
  for the contract.
\<close>

definition spec_contract_matches :: "string \<Rightarrow> (string \<times> string) list \<Rightarrow> bool" where
  "spec_contract_matches c token = (case token of [] \<Rightarrow> False | (k, v) # _ \<Rightarrow> k = c)"

definition spec_token_entry :: "string \<Rightarrow> account list \<Rightarrow> string option" where
  "spec_token_entry c records =
     (case records of
        [] \<Rightarrow> None
      | acc # _ \<Rightarrow>
          (case find (spec_contract_matches c) (trc20 acc) of
             Some ((k, v) # _) \<Rightarrow> Some v
           | _ \<Rightarrow> None))"

text \<open>
  The base-unit value of an entry: the service writes it as a string of decimal digits,
  and the value is the natural number that these digits denote.
\<close>

definition spec_decimal_value :: "string \<Rightarrow> nat option" where
  "spec_decimal_value v =
     (if v \<noteq> [] \<and> list_all (\<lambda>c. c \<in> set ''0123456789'') v
      then Some (foldl (\<lambda>n c. 10 * n + (of_char c - 48)) 0 v)
      else None)"

text \<open>The base link of a network, and the request that broadcasts a transaction.\<close>

definition trongrid_link :: "string option \<Rightarrow> string" where
  "trongrid_link network =
     (let n = default_to ''mainnet'' network
      in ''https://''
         @ (if n = ''shasta'' then ''api.shasta'' else if n = ''mainnet'' then ''api'' else n)
         @ ''.trongrid.io'')"

definition broadcast_request :: "env \<Rightarrow> string option \<Rightarrow> transaction \<Rightarrow> event" where
  "broadcast_request env network t =
     Fetch (trongrid_link network @ ''/wallet/broadcasthex'') ''post''
       (Some [(''transaction'', hex t)])
       [(''content-type'', ''application/json''),
        (''TRON-PRO-API-KEY'', default_to [] (TRONGRID_API_KEY env))]"

text \<open>The construction of a token transfer, and of a native transfer, among the events.\<close>

definition token_construction :: "event \<Rightarrow> bool" where
  "token_construction ev =
     (case ev of TransferTRC20Token w c to a blk \<Rightarrow> True | _ \<Rightarrow> False)"

definition native_construction :: "event \<Rightarrow> bool" where
  "native_construction ev =
     (case ev of GenerateTransaction w to a kind blk \<Rightarrow> True | _ \<Rightarrow> False)"

text \<open>
  The failures that are no guard's: the missing credential, and whatever a collaborator
  threw.
\<close>

definition unguarded :: "error \<Rightarrow> bool" where
  "unguarded e =
     (case e of Thrown m \<Rightarrow> True | Error m \<Rightarrow> m = ''Please provide TRONGRID_API_KEY'')"

section \<open>Scenarios\<close>

text \<open>
  The environment of the scenarios: the credential is configured and every collaborator
  succeeds. The account listing answers by link with \<open>accs\<close>, the transaction listings
  with \<open>lst\<close>.
\<close>

definition scenario_env :: "(string \<Rightarrow> account list) \<Rightarrow> listing \<Rightarrow> env" where
  "scenario_env accs lst =
     \<lparr>TRONGRID_API_KEY = Some ''key'',
      getnowblock = (\<lambda>s link method body.
        Inr \<lparr>blockID = ''00ff'',
             block_header_raw_data = \<lparr>raw_timestamp = 1600000000000, raw_number = 7\<rparr>\<rparr>),
      accounts = (\<lambda>s link method body. Inr (accs link)),
      transactions = (\<lambda>s link method body. Inr lst),
      broadcasthex = (\<lambda>s link method body. Inr [(''result'', JBool True)]),
      fromTronPrivateKey = (\<lambda>key. Inr \<lparr>getAddress = ''T'' @ key, getTronPrivateKey = key\<rparr>),
      generateTransaction = (\<lambda>wallet to amount kind block. Inr \<lparr>hex = ''0a01''\<rparr>),
      transferTRC20Token = (\<lambda>wallet contract to amount block. Inr \<lparr>hex = ''0a02''\<rparr>)\<rparr>"

text \<open>What that environment answers and records.\<close>

definition scenario_listing :: listing where
  "scenario_listing = \<lparr>data = [], success = True, error = []\<rparr>"

definition scenario_block :: BlockReference where
  "scenario_block = \<lparr>hash = ''00ff'', timestamp = 1600000000000, number = 7\<rparr>"

definition scenario_wallet :: "string \<Rightarrow> wallet_object" where
  "scenario_wallet key = \<lparr>getAddress = ''T'' @ key, getTronPrivateKey = key\<rparr>"

definition scenario_request ::
  "string \<Rightarrow> string \<Rightarrow> (string \<times> string) list option \<Rightarrow> event" where
  "scenario_request url method body =
     Fetch (''https://api.trongrid.io/'' @ url) method body
       [(''content-type'', ''application/json''), (''TRON-PRO-API-KEY'', ''key'')]"

text \<open>
  Account listings: every account with the same balance in sun and 5000000 units of the
  token \<open>TContract\<close>; an account with three token entries; and a sender with no coin
  next to a backer with \<open>backer_balance\<close> sun.
\<close>

definition scenario_account :: "int \<Rightarrow> string \<Rightarrow> account list" where
  "scenario_account sun_balance link =
     [\<lparr>balance = Number (Fin (of_int sun_balance)),
       trc20 = [[(''TContract'', ''5000000'')]]\<rparr>]"

definition scenario_tokens :: "account list" where
  "scenario_tokens =
     [\<lparr>balance = Number (Fin 0),
       trc20 = [[(''TOther'', ''7'')], [(''TContract'', ''5000000'')], [(''tcontract'', ''9'')]]\<rparr>]"

definition scenario_backed :: "int \<Rightarrow> string \<Rightarrow> account list" where
  "scenario_backed backer_balance link =
     (if link = ''https://api.trongrid.io/v1/accounts/Tbacker''
      then [\<lparr>balance = Number (Fin (of_int backer_balance)), trc20 = []\<rparr>]
      else [\<lparr>balance = Number (Fin 0), trc20 = [[(''TContract'', ''5000000'')]]\<rparr>])"

section \<open>Rounding to a double\<close>

lemma two_powi_pos: "0 < (2::rat) powi k"
  by (simp add: power_int_def)

lemma two_powi_mono: "k \<le> l \<Longrightarrow> (2::rat) powi k \<le> 2 powi l"
  by (rule power_int_increasing) simp_all

lemma two_powi_less_cancel: "(2::rat) powi k < 2 powi l \<Longrightarrow> k < l"
  using two_powi_mono [of l k] by (cases "k < l") auto

lemma bitlen_powi_bounds:
  assumes "0 < n"
  shows "(2::rat) powi (bitlen n - 1) \<le> of_int n" and "of_int n < (2::rat) powi bitlen n"
proof -
  from assms have b1: "1 \<le> bitlen n"
    using bitlen_eq_zero_iff [of n] bitlen_nonneg [of n] by linarith
  from bitlen_bounds [OF assms]
  have lo: "(2::int) ^ nat (bitlen n - 1) \<le> n" and hi: "n < (2::int) ^ nat (bitlen n)"
    by simp_all
  have "(of_int ((2::int) ^ nat (bitlen n - 1)) :: rat) \<le> of_int n"
    using lo by (simp only: of_int_le_iff)
  then show "(2::rat) powi (bitlen n - 1) \<le> of_int n"
    using b1 by (simp add: power_int_def)
  have "(of_int n :: rat) < of_int ((2::int) ^ nat (bitlen n))"
    using hi by (simp only: of_int_less_iff)
  then show "of_int n < (2::rat) powi bitlen n"
    using b1 by (simp add: power_int_def)
qed

text \<open>The binary exponent is found, and it is the only one.\<close>

lemma floor_log2_bounds:
  assumes "0 < a"
  shows "2 powi floor_log2 a \<le> a" and "a < 2 powi (floor_log2 a + 1)"
proof -
  obtain n d where q: "quotient_of a = (n, d)" by (cases "quotient_of a")
  have d: "0 < d" using q by (rule quotient_of_denom_pos)
  have a: "a = of_int n / of_int d" using q by (rule quotient_of_div)
  have n: "0 < n" using assms d a by (simp add: zero_less_divide_iff)
  define k where "k = bitlen n - bitlen d"
  have dr: "(0::rat) < of_int d" using d by simp
  have "a < 2 powi bitlen n / 2 powi (bitlen d - 1)"
    unfolding a using bitlen_powi_bounds [OF n] bitlen_powi_bounds [OF d] dr n
    by (intro frac_less) (simp_all add: two_powi_pos)
  also have "\<dots> = 2 powi (k + 1)"
    by (simp add: k_def power_int_diff power_int_add)
  finally have up: "a < 2 powi (k + 1)" .
  have "2 powi (bitlen n - 1) / 2 powi bitlen d < a"
    unfolding a using bitlen_powi_bounds [OF n] bitlen_powi_bounds [OF d] dr n
    by (intro frac_less2) (simp_all add: two_powi_pos)
  moreover have "2 powi (bitlen n - 1) / 2 powi bitlen d = (2::rat) powi (k - 1)"
    by (simp add: k_def power_int_diff power_int_add)
  ultimately have lo: "2 powi (k - 1) < a" by simp
  have fl: "floor_log2 a = (if 2 powi k \<le> a then k else k - 1)"
    by (simp add: floor_log2_def q k_def Let_def)
  show "2 powi floor_log2 a \<le> a" using lo by (simp add: fl)
  show "a < 2 powi (floor_log2 a + 1)" using up by (simp add: fl)
qed

lemma floor_log2_unique:
  assumes "2 powi e \<le> a" "a < 2 powi (e + 1)"
  shows "floor_log2 a = e"
proof -
  have pos: "0 < a" using assms(1) two_powi_pos [of e] by linarith
  note b = floor_log2_bounds [OF pos]
  have "2 powi e < (2::rat) powi (floor_log2 a + 1)" using assms(1) b(2) by linarith
  then have 1: "e < floor_log2 a + 1" by (rule two_powi_less_cancel)
  have "2 powi floor_log2 a < (2::rat) powi (e + 1)" using assms(2) b(1) by linarith
  then have 2: "floor_log2 a < e + 1" by (rule two_powi_less_cancel)
  from 1 2 show ?thesis by linarith
qed

text \<open>So is the decimal exponent.\<close>

lemma floor_log10_bounds:
  assumes "0 < a"
  shows "10 powi floor_log10 a \<le> a" and "a < 10 powi (floor_log10 a + 1)"
proof -
  obtain n d where q: "quotient_of a = (n, d)" by (cases "quotient_of a")
  have d: "0 < d" using q by (rule quotient_of_denom_pos)
  have a: "a = of_int n / of_int d" using q by (rule quotient_of_div)
  have n: "0 < n" using assms d a by (simp add: zero_less_divide_iff)
  define ln where "ln = int (floorlog 10 (nat n))"
  define ld where "ld = int (floorlog 10 (nat d))"
  define k where "k = ln - ld"
  have bn: "10 ^ (floorlog 10 (nat n) - 1) \<le> nat n \<and> nat n < 10 ^ floorlog 10 (nat n)"
    using floorlog_bounds [of "nat n" 10] n by simp
  have bd: "10 ^ (floorlog 10 (nat d) - 1) \<le> nat d \<and> nat d < 10 ^ floorlog 10 (nat d)"
    using floorlog_bounds [of "nat d" 10] d by simp
  have ln1: "1 \<le> ln" using n by (simp add: ln_def floorlog_def)
  have ld1: "1 \<le> ld" using d by (simp add: ld_def floorlog_def)
  have rn: "(of_int n :: rat) = of_nat (nat n)" using n by simp
  have rd: "(of_int d :: rat) = of_nat (nat d)" using d by simp
  have nlo: "(10::rat) powi (ln - 1) \<le> of_int n"
  proof -
    have "(of_nat (10 ^ (floorlog 10 (nat n) - 1)) :: rat) \<le> of_nat (nat n)"
      using bn by (simp only: of_nat_le_iff)
    moreover have "(10::rat) powi (ln - 1) = of_nat (10 ^ (floorlog 10 (nat n) - 1))"
      using ln1 by (simp add: power_int_def ln_def nat_diff_distrib')
    ultimately show ?thesis by (simp only: rn)
  qed
  have nhi: "of_int n < (10::rat) powi ln"
  proof -
    have "(of_nat (nat n) :: rat) < of_nat (10 ^ floorlog 10 (nat n))"
      using bn by (simp only: of_nat_less_iff)
    moreover have "(10::rat) powi ln = of_nat (10 ^ floorlog 10 (nat n))"
      by (simp add: power_int_def ln_def)
    ultimately show ?thesis by (simp only: rn)
  qed
  have dlo: "(10::rat) powi (ld - 1) \<le> of_int d"
  proof -
    have "(of_nat (10 ^ (floorlog 10 (nat d) - 1)) :: rat) \<le> of_nat (nat d)"
      using bd by (simp only: of_nat_le_iff)
    moreover have "(10::rat) powi (ld - 1) = of_nat (10 ^ (floorlog 10 (nat d) - 1))"
      using ld1 by (simp add: power_int_def ld_def nat_diff_distrib')
    ultimately show ?thesis by (simp only: rd)
  qed
  have dhi: "of_int d < (10::rat) powi ld"
  proof -
    have "(of_nat (nat d) :: rat) < of_nat (10 ^ floorlog 10 (nat d))"
      using bd by (simp only: of_nat_less_iff)
    moreover have "(10::rat) powi ld = of_nat (10 ^ floorlog 10 (nat d))"
      by (simp add: power_int_def ld_def)
    ultimately show ?thesis by (simp only: rd)
  qed
  have p: "0 < (10::rat) powi j" for j by (simp add: power_int_def)
  have dr: "(0::rat) < of_int d" using d by simp
  have "a < 10 powi ln / 10 powi (ld - 1)"
    unfolding a using nhi dlo dr n by (intro frac_less) (simp_all add: p)
  also have "\<dots> = 10 powi (k + 1)"
    by (simp add: k_def power_int_diff power_int_add)
  finally have up: "a < 10 powi (k + 1)" .
  have "10 powi (ln - 1) / 10 powi ld < a"
    unfolding a using nlo dhi dr n by (intro frac_less2) (simp_all add: p)
  moreover have "10 powi (ln - 1) / 10 powi ld = (10::rat) powi (k - 1)"
    by (simp add: k_def power_int_diff power_int_add)
  ultimately have lo: "10 powi (k - 1) < a" by simp
  have fl: "floor_log10 a = (if 10 powi k \<le> a then k else k - 1)"
    by (simp add: floor_log10_def q k_def ln_def ld_def Let_def)
  show "10 powi floor_log10 a \<le> a" using lo by (simp add: fl)
  show "a < 10 powi (floor_log10 a + 1)" using up by (simp add: fl)
qed

lemma round_half_even_of_int: "round_half_even (of_int m) = m"
  by (simp add: round_half_even_def)

lemma round_half_even_near:
  assumes "\<bar>y - of_int m\<bar> < 1 / 2"
  shows "round_half_even y = m"
proof -
  from assms have b: "y - of_int m < 1 / 2" "- (y - of_int m) < 1 / 2"
    unfolding abs_less_iff by blast+
  have "\<lfloor>y\<rfloor> = m \<or> \<lfloor>y\<rfloor> = m - 1"
  proof (cases "of_int m \<le> y")
    case True
    have "y < of_int m + 1" using b by linarith
    with True have "\<lfloor>y\<rfloor> = m" by (intro floor_unique) simp_all
    then show ?thesis ..
  next
    case False
    have "of_int (m - 1) \<le> y" using b by simp
    moreover have "y < of_int (m - 1) + 1" using False by simp
    ultimately have "\<lfloor>y\<rfloor> = m - 1" by (rule floor_unique)
    then show ?thesis ..
  qed
  then show ?thesis
  proof
    assume f: "\<lfloor>y\<rfloor> = m"
    have "y - of_int m < 1 / 2" using b by linarith
    then show ?thesis by (simp add: round_half_even_def f Let_def)
  next
    assume f: "\<lfloor>y\<rfloor> = m - 1"
    have "1 / 2 < y - of_int (m - 1)" using b by simp
    then show ?thesis by (simp add: round_half_even_def f Let_def)
  qed
qed

text \<open>A value that is a double already is left as it is.\<close>

lemma round_double_exact:
  assumes m: "\<bar>m\<bar> < 2 ^ 53" and q: "- 1074 \<le> q" "q \<le> 971"
  shows "round_double (of_int m * 2 powi q) = Fin (of_int m * 2 powi q)"
proof (cases "m = 0")
  case True
  then show ?thesis by (simp add: round_double_def)
next
  case False
  define y :: rat where "y = of_int m * 2 powi q"
  define a where "a = \<bar>y\<bar>"
  have a_eq: "a = of_int \<bar>m\<bar> * 2 powi q"
    by (simp add: a_def y_def abs_mult two_powi_pos less_imp_le)
  have apos: "0 < a" using False by (simp add: a_eq two_powi_pos)
  have y0: "y \<noteq> 0" using apos by (auto simp: a_def)
  define e where "e = floor_log2 a"
  define q' where "q' = max (e - 52) (- 1074)"
  have "(of_int \<bar>m\<bar> :: rat) < of_int (2 ^ 53)" using m by (simp only: of_int_less_iff)
  then have mlt: "(of_int \<bar>m\<bar> :: rat) < 2 powi 53" by simp
  have "a < 2 powi 53 * 2 powi q"
    unfolding a_eq using mlt by (simp add: two_powi_pos)
  also have "\<dots> = 2 powi (53 + q)" by (simp add: power_int_add)
  finally have alt: "a < 2 powi (53 + q)" .
  have "2 powi e < (2::rat) powi (53 + q)"
    using floor_log2_bounds(1) [OF apos] alt by (simp add: e_def)
  then have "e < 53 + q" by (rule two_powi_less_cancel)
  then have q'le: "q' \<le> q" using q by (simp add: q'_def)
  define j where "j = nat (q - q')"
  have qq: "q = q' + int j" using q'le by (simp add: j_def)
  have "a / 2 powi q' = of_int \<bar>m\<bar> * 2 ^ j"
    by (simp add: a_eq qq power_int_add)
  also have "\<dots> = of_int (\<bar>m\<bar> * 2 ^ j)" by simp
  finally have scaled: "a / 2 powi q' = of_int (\<bar>m\<bar> * 2 ^ j)" .
  have z: "of_int (round_half_even (a / 2 powi q')) * 2 powi q' = a"
    unfolding scaled round_half_even_of_int
    by (simp add: a_eq qq power_int_add)
  have "a < 2 powi (53 + 971)"
    using alt two_powi_mono [of "53 + q" "53 + 971"] q by simp
  then have nov: "\<not> 2 powi 1024 \<le> a" by simp
  have "sgn y * a = y" by (simp add: a_def sgn_if)
  then have "round_double y = Fin y"
    using y0 z nov
    by (simp add: round_double_def Let_def a_def [symmetric] e_def [symmetric] q'_def [symmetric])
  then show ?thesis by (simp add: y_def)
qed

lemma round_double_of_int:
  assumes "\<bar>n\<bar> < 2 ^ 53"
  shows "round_double (of_int n) = Fin (of_int n)"
  using round_double_exact [OF assms, of 0] by simp

text \<open>
  A certificate for any other value of the normal range: the exponent \<open>e\<close> and an
  integer \<open>m\<close> less than half a unit in the last place away.
\<close>

lemma round_double_near:
  assumes lo: "2 powi e \<le> \<bar>y\<bar>" and hi: "\<bar>y\<bar> < 2 powi (e + 1)"
    and e: "- 1022 \<le> e" "e \<le> 1022"
    and m: "\<bar>\<bar>y\<bar> / 2 powi (e - 52) - of_int m\<bar> < 1 / 2"
  shows "round_double y = Fin (sgn y * (of_int m * 2 powi (e - 52)))"
proof -
  have fl: "floor_log2 \<bar>y\<bar> = e" using lo hi by (rule floor_log2_unique)
  have "0 < \<bar>y\<bar>" using lo two_powi_pos [of e] by linarith
  then have y0: "y \<noteq> 0" by simp
  have q: "max (e - 52) (- 1074) = e - 52" using e by simp
  have rhe: "round_half_even (\<bar>y\<bar> / 2 powi (e - 52)) = m" using m by (rule round_half_even_near)
  have "\<bar>y\<bar> / 2 powi (e - 52) < 2 powi (e + 1) / 2 powi (e - 52)"
    using hi by (simp add: divide_strict_right_mono two_powi_pos)
  also have "\<dots> = 2 powi 53" by (simp flip: power_int_diff)
  finally have "of_int m < (2::rat) powi 53 + 1 / 2" using m by linarith
  then have "of_int m < (of_int (2 ^ 53 + 1) :: rat)" by simp
  then have "m < 2 ^ 53 + 1" by (simp only: of_int_less_iff)
  then have "(of_int m :: rat) \<le> of_int (2 ^ 53)" by (simp only: of_int_le_iff)
  then have "(of_int m :: rat) \<le> 2 powi 53" by simp
  then have "of_int m * 2 powi (e - 52) \<le> 2 powi 53 * (2::rat) powi (e - 52)"
    by (simp add: two_powi_pos)
  also have "\<dots> = 2 powi (e + 1)"
    using power_int_add [of "2::rat" 53 "e - 52"] by (simp add: add.commute)
  also have "\<dots> < 2 powi 1024"
    using e by (intro power_int_strict_increasing) simp_all
  finally have nov: "\<not> 2 powi 1024 \<le> of_int m * (2::rat) powi (e - 52)" by simp
  show ?thesis
    using y0 nov by (simp add: round_double_def fl q rhe Let_def)
qed

text \<open>Rounding to the nearest integer stays within the integers next to the value.\<close>

lemma round_half_even_bounds:
  shows "\<lfloor>y\<rfloor> \<le> round_half_even y"
    and "round_half_even y \<le> \<lceil>y\<rceil>"
    and "\<bar>of_int (round_half_even y) - y\<bar> \<le> 1 / 2"
proof -
  define f where "f = \<lfloor>y\<rfloor>"
  have lo: "of_int f \<le> y" and hi: "y < of_int f + 1" unfolding f_def by linarith+
  have r: "round_half_even y = f \<or> round_half_even y = f + 1"
    by (simp add: round_half_even_def Let_def f_def)
  show "\<lfloor>y\<rfloor> \<le> round_half_even y" using r by (auto simp: f_def)
  have up: "1 / 2 \<le> y - of_int f" if "round_half_even y = f + 1"
    using that by (simp add: round_half_even_def Let_def f_def [symmetric] split: if_splits)
  have down: "y - of_int f \<le> 1 / 2" if "round_half_even y = f"
    using that by (simp add: round_half_even_def Let_def f_def [symmetric] split: if_splits)
  show "round_half_even y \<le> \<lceil>y\<rceil>"
  proof (cases "round_half_even y = f")
    case True
    then show ?thesis by (simp add: f_def floor_le_ceiling)
  next
    case False
    with r have e: "round_half_even y = f + 1" by simp
    from up [OF e] have "of_int f < y" by linarith
    then have "f < \<lceil>y\<rceil>" by (simp add: less_ceiling_iff)
    with e show ?thesis by simp
  qed
  show "\<bar>of_int (round_half_even y) - y\<bar> \<le> 1 / 2"
  proof (cases "round_half_even y = f")
    case True
    with down lo show ?thesis by simp
  next
    case False
    with r have e: "round_half_even y = f + 1" by simp
    with up hi show ?thesis by simp
  qed
qed

text \<open>
  Rounding to a double moves a value below \<open>2 ^ k\<close> in magnitude by at most
  \<open>2 ^ (k - 54)\<close>, half a unit in the last place.
\<close>

lemma round_double_abs_error:
  assumes y: "\<bar>y\<bar> < 2 powi k" and k: "- 1021 \<le> k" "k \<le> 1023"
  shows "\<exists>z. round_double y = Fin z \<and> \<bar>z - y\<bar> \<le> 2 powi (k - 54)"
proof (cases "y = 0")
  case True
  then show ?thesis using two_powi_pos [of "k - 54"] by (simp add: round_double_def less_imp_le)
next
  case False
  define a where "a = \<bar>y\<bar>"
  have apos: "0 < a" using False by (simp add: a_def)
  define e where "e = floor_log2 a"
  define q where "q = max (e - 52) (- 1074)"
  define m where "m = round_half_even (a / 2 powi q)"
  define z where "z = of_int m * (2::rat) powi q"
  have "2 powi e < (2::rat) powi k"
    using floor_log2_bounds(1) [OF apos] y by (simp add: e_def a_def)
  then have "e < k" by (rule two_powi_less_cancel)
  then have qle: "q \<le> k - 53" using k by (simp add: q_def)
  have "z - a = (of_int m - a / 2 powi q) * 2 powi q"
    using two_powi_pos [of q] by (simp add: z_def algebra_simps)
  then have "\<bar>z - a\<bar> = \<bar>of_int m - a / 2 powi q\<bar> * 2 powi q"
    using two_powi_pos [of q] by (simp add: abs_mult less_imp_le)
  also have "\<dots> \<le> 1 / 2 * 2 powi q"
    using round_half_even_bounds(3) [of "a / 2 powi q"] two_powi_pos [of q]
    by (intro mult_right_mono) (simp_all add: m_def less_imp_le)
  also have "\<dots> = 2 powi (q - 1)" by (simp add: power_int_diff)
  also have "\<dots> \<le> 2 powi (k - 54)" using qle by (intro two_powi_mono) simp
  finally have err: "\<bar>z - a\<bar> \<le> 2 powi (k - 54)" .
  have "2 powi (k - 54) \<le> (2::rat) powi k" by (intro two_powi_mono) simp
  then have "z < 2 powi k + 2 powi k" using err y by (simp add: a_def abs_le_iff)
  also have "\<dots> = (2::rat) powi (k + 1)" by (simp add: power_int_add)
  also have "\<dots> \<le> 2 powi 1024" using k by (intro two_powi_mono) simp
  finally have nov: "\<not> 2 powi 1024 \<le> z" by simp
  have rd: "round_double y = Fin (sgn y * z)"
    using False nov
    by (simp add: round_double_def Let_def a_def [symmetric] e_def [symmetric]
        q_def [symmetric] m_def [symmetric] z_def [symmetric])
  have "sgn y * z - y = sgn y * (z - a)" by (simp add: a_def algebra_simps sgn_if)
  then have "\<bar>sgn y * z - y\<bar> = \<bar>z - a\<bar>" using False by (simp add: abs_mult abs_sgn_eq)
  with err rd show ?thesis by simp
qed

text \<open>
  Below \<open>2 ^ 53\<close> every integer is a double, so rounding crosses none: the double of
  \<open>y\<close> lies between the integers next to \<open>y\<close>.
\<close>

lemma round_double_sandwich:
  assumes y: "\<bar>y\<bar> < 2 ^ 53"
  shows "\<exists>z. round_double y = Fin (sgn y * z)
           \<and> of_int \<lfloor>\<bar>y\<bar>\<rfloor> \<le> z \<and> z \<le> of_int \<lceil>\<bar>y\<bar>\<rceil>"
proof (cases "y = 0")
  case True
  then have "round_double y = Fin (sgn y * 0) \<and> of_int \<lfloor>\<bar>y\<bar>\<rfloor> \<le> (0::rat)
      \<and> (0::rat) \<le> of_int \<lceil>\<bar>y\<bar>\<rceil>"
    by (simp add: round_double_def)
  then show ?thesis by blast
next
  case False
  define a where "a = \<bar>y\<bar>"
  have apos: "0 < a" using False by (simp add: a_def)
  define e where "e = floor_log2 a"
  define q where "q = max (e - 52) (- 1074)"
  define m where "m = round_half_even (a / 2 powi q)"
  define z where "z = of_int m * (2::rat) powi q"
  have "a < 2 powi 53" using y by (simp add: a_def)
  then have "2 powi e < (2::rat) powi 53"
    using floor_log2_bounds(1) [OF apos] unfolding e_def by linarith
  then have "e < 53" by (rule two_powi_less_cancel)
  then have q0: "q \<le> 0" by (simp add: q_def)
  define N :: int where "N = 2 ^ nat (- q)"
  have Npos: "0 < N" by (simp add: N_def)
  have pw: "(2::rat) powi q = 1 / of_int N"
    using q0 by (simp add: N_def power_int_def field_simps)
  have scaled: "a / 2 powi q = a * of_int N" by (simp add: pw)
  have zN: "z = of_int m / of_int N" by (simp add: z_def pw)
  have "of_int (\<lfloor>a\<rfloor> * N) \<le> a * of_int N"
    using Npos by (simp add: mult_right_mono)
  then have "\<lfloor>a\<rfloor> * N \<le> \<lfloor>a * of_int N\<rfloor>" by (simp only: le_floor_iff)
  also have "\<dots> \<le> m" using round_half_even_bounds(1) [of "a * of_int N"] by (simp add: m_def scaled)
  finally have "(of_int (\<lfloor>a\<rfloor> * N) :: rat) \<le> of_int m" by (simp only: of_int_le_iff)
  then have lo: "of_int \<lfloor>a\<rfloor> \<le> z" using Npos by (simp add: zN pos_le_divide_eq)
  have "a * of_int N \<le> of_int (\<lceil>a\<rceil> * N)"
    using Npos by (simp add: mult_right_mono)
  then have "\<lceil>a * of_int N\<rceil> \<le> \<lceil>a\<rceil> * N" by (simp only: ceiling_le_iff)
  moreover have "m \<le> \<lceil>a * of_int N\<rceil>"
    using round_half_even_bounds(2) [of "a * of_int N"] by (simp add: m_def scaled)
  ultimately have "(of_int m :: rat) \<le> of_int (\<lceil>a\<rceil> * N)" by (simp only: of_int_le_iff) 
  then have hi: "z \<le> of_int \<lceil>a\<rceil>" using Npos by (simp add: zN pos_divide_le_eq)
  have "a \<le> 2 ^ 53" using y by (simp add: a_def)
  then have "a \<le> of_int (2 ^ 53)" by simp
  then have "\<lceil>a\<rceil> \<le> 2 ^ 53" by (simp only: ceiling_le_iff)
  then have "(of_int \<lceil>a\<rceil> :: rat) \<le> of_int (2 ^ 53)" by (simp only: of_int_le_iff)
  with hi have "z \<le> of_int (2 ^ 53)" by linarith
  then have "z \<le> 2 powi 53" by simp
  also have "\<dots> < (2::rat) powi 1024" by (intro power_int_strict_increasing) simp_all
  finally have nov: "\<not> 2 powi 1024 \<le> z" by simp
  have rd: "round_double y = Fin (sgn y * z)"
    using False nov
    by (simp add: round_double_def Let_def a_def [symmetric] e_def [symmetric]
        q_def [symmetric] m_def [symmetric] z_def [symmetric])
  with lo hi show ?thesis unfolding a_def by blast
qed

text \<open>Rounding is symmetric about zero.\<close>

lemma round_double_minus:
  "round_double (- y) =
     (case round_double y of Fin z \<Rightarrow> Fin (- z) | PosInf \<Rightarrow> NegInf | NegInf \<Rightarrow> PosInf
      | NaN \<Rightarrow> NaN)"
  by (simp add: round_double_def Let_def sgn_if)

lemma floor_rat_numeral [simp]:
  "\<lfloor>(numeral a :: rat) / numeral b\<rfloor> = numeral a div numeral b"
  by (metis floor_divide_of_int_eq of_int_numeral)

section \<open>Truncation and conversion\<close>

lemma Math_pow10_6: "Math_pow10 6 = Fin 1000000"
proof -
  have "round_double (of_int 1000000) = Fin (of_int 1000000)"
    by (rule round_double_of_int) simp
  then show ?thesis by (simp add: Math_pow10_def)
qed

lemma Math_trunc_of_int: "Math_trunc (of_int n) = n"
  by (simp add: Math_trunc_def flip: of_int_minus)


lemma ToInt32_of_int:
  assumes "- (2 ^ 31) \<le> n" "n < 2 ^ 31"
  shows "ToInt32 (Fin (of_int n)) = n"
proof (cases "0 \<le> n")
  case True
  then have "n mod 2 ^ 32 = n" using assms by simp
  then show ?thesis using assms by (simp add: Math_trunc_of_int Let_def)
next
  case False
  have "(n + 2 ^ 32) mod 2 ^ 32 = n + 2 ^ 32"
    using assms False by (intro mod_pos_pos_trivial) simp_all
  then have "n mod 2 ^ 32 = n + 2 ^ 32" by simp
  then show ?thesis using assms False by (simp add: Math_trunc_of_int Let_def)
qed

lemma ToInt32_range: "- (2 ^ 31) \<le> ToInt32 v \<and> ToInt32 v < 2 ^ 31"
proof (cases v)
  case (Fin r)
  define m where "m = Math_trunc r mod 2 ^ 32"
  have "0 \<le> m" "m < 2 ^ 32" by (simp_all add: m_def)
  moreover have "ToInt32 (Fin r) = (if 2 ^ 31 \<le> m then m - 2 ^ 32 else m)"
    by (simp add: m_def Let_def)
  ultimately show ?thesis by (simp add: Fin)
qed simp_all

lemma ToInt32_cong: "(ToInt32 (Fin r) - Math_trunc r) mod 2 ^ 32 = 0"
proof -
  have "(Math_trunc r mod 2 ^ 32 - Math_trunc r) mod 2 ^ 32 = 0"
    by (simp add: mod_diff_left_eq)
  moreover have "(Math_trunc r mod 2 ^ 32 - 2 ^ 32 - Math_trunc r) mod 2 ^ 32 = 0"
    by (metis (no_types) diff_diff_eq2 diff_add_eq_diff_diff_swap mod_diff_left_eq
        cancel_comm_monoid_add_class.diff_cancel mod_0 minus_mod_self2 diff_diff_eq add.commute)
  ultimately show ?thesis by (simp add: Let_def)
qed

lemma round_half_up_20_millionths:
  "round_half_up_20 (of_int n / 1000000) = of_int n / 1000000"
proof -
  have "\<bar>of_int n / 1000000 :: rat\<bar> * 10 ^ 20 = of_int (\<bar>n\<bar> * 10 ^ 14)"
    by (simp add: abs_divide)
  then have "\<lfloor>\<bar>of_int n / 1000000 :: rat\<bar> * 10 ^ 20 + 1 / 2\<rfloor> = \<bar>n\<bar> * 10 ^ 14"
    by (simp only: floor_add_int) linarith
  then have "round_half_up_20 (of_int n / 1000000) =
      sgn (of_int n / 1000000) * (of_int \<bar>n\<bar> / 1000000)"
    by (simp add: round_half_up_20_def)
  also have "\<dots> = of_int n / 1000000"
    by (simp add: sgn_if)
  finally show ?thesis .
qed

text \<open>An integer of at most 53 bits is read by \<open>new BigNumber\<close> as it is.\<close>

lemma String_value_of_int:
  assumes "\<bar>n\<bar> \<le> 2 ^ 53"
  shows "String_value (of_int n) = of_int n"
proof -
  have "\<bar>of_int n :: rat\<bar> \<le> of_int (2 ^ 53)"
    using assms by (simp only: of_int_abs [symmetric] of_int_le_iff)
  then show ?thesis by (simp add: String_value_def)
qed

lemma String_value_numeral [simp]:
  "(numeral w :: int) \<le> 2 ^ 53 \<Longrightarrow> String_value (numeral w) = numeral w"
  using String_value_of_int [of "numeral w"] by simp

lemma String_value_0 [simp]: "String_value 0 = 0"
  using String_value_of_int [of 0] by simp

lemma String_value_1 [simp]: "String_value 1 = 1"
  using String_value_of_int [of 1] by simp

lemma BigNumber_of_int:
  "\<bar>n\<bar> \<le> 2 ^ 53 \<Longrightarrow> BigNumber (Number (Fin (of_int n))) = Fin (of_int n)"
  by (simp add: String_value_of_int)

text \<open>The decimal that \<open>String\<close> writes for a double rounds back to that double.\<close>

lemma decimal_of_digits_rounds:
  "decimal_of_digits x k = Some c \<Longrightarrow> round_double c = Fin x"
  by (auto simp: decimal_of_digits_def Let_def split: if_splits)

lemma shortest_decimal_rounds:
  "round_double x = Fin x \<Longrightarrow> round_double (shortest_decimal x ks) = Fin x"
  by (induction ks) (auto simp: decimal_of_digits_rounds split: option.splits)

lemma String_value_rounds:
  assumes "round_double x = Fin x"
  shows "round_double (String_value x) = Fin x"
proof (cases "of_int \<lfloor>x\<rfloor> = x \<and> \<bar>x\<bar> \<le> 2 ^ 53")
  case True
  then show ?thesis using assms by (simp add: String_value_def)
next
  case False
  then have sv: "String_value x = sgn x * shortest_decimal \<bar>x\<bar> [1..<18]"
    unfolding String_value_def by (rule if_not_P)
  have x0: "x \<noteq> 0" using False by auto
  show ?thesis
  proof (cases "0 < x")
    case True
    then show ?thesis using shortest_decimal_rounds [OF assms] by (simp add: sv)
  next
    case neg: False
    with x0 have n: "x < 0" by simp
    have "round_double (- x) = Fin (- x)" by (simp add: round_double_minus assms)
    from shortest_decimal_rounds [OF this, of "[1..<18]"]
    have "round_double (shortest_decimal (- x) [1..<18]) = Fin (- x)" .
    then have "round_double (- shortest_decimal (- x) [1..<18]) = Fin x"
      by (simp add: round_double_minus)
    then show ?thesis using n by (simp add: sv)
  qed
qed

lemma BigNumber_pow10_6: "BigNumber (Number (Math_pow10 6)) = Fin 1000000"
  using BigNumber_of_int [of 1000000] by (simp add: Math_pow10_6)

lemma BigNumber_parseTrx: "BigNumber (Number (parseTrx t)) = parseTrx t"
proof -
  define k where "k = ToInt32 (js_mul t (Math_pow10 6))"
  have "- (2 ^ 31) \<le> k \<and> k < 2 ^ 31" unfolding k_def by (rule ToInt32_range)
  then have "\<bar>k\<bar> \<le> 2 ^ 53" unfolding abs_le_iff by simp
  then show ?thesis unfolding parseTrx_def k_def [symmetric] by (rule BigNumber_of_int)
qed

lemma sunToTrx_of_int:
  "\<bar>n\<bar> \<le> 2 ^ 53 \<Longrightarrow> sunToTrx (Number (Fin (of_int n))) = round_double (of_int n / 1000000)"
  by (simp add: sunToTrx_def String_value_of_int BigNumber_pow10_6 round_half_up_20_millionths)

lemma parseTrx_whole:
  assumes "\<bar>k\<bar> \<le> 2147"
  shows "parseTrx (Fin (of_int k)) = Fin (of_int (k * 1000000))"
proof -
  have "\<bar>k * 1000000\<bar> < 2 ^ 53" using assms by simp
  then have "round_double (of_int (k * 1000000)) = Fin (of_int (k * 1000000))"
    by (rule round_double_of_int)
  moreover have "ToInt32 (Fin (of_int (k * 1000000))) = k * 1000000"
    using assms by (intro ToInt32_of_int) simp_all
  ultimately show ?thesis by (simp add: parseTrx_def Math_pow10_6)
qed

lemma ToInt32_trunc:
  assumes "Math_trunc r = n" "- (2 ^ 31) \<le> n" "n < 2 ^ 31"
  shows "ToInt32 (Fin r) = n"
proof -
  have "ToInt32 (Fin r) = ToInt32 (Fin (of_int n))"
    by (simp add: assms(1) Math_trunc_of_int)
  then show ?thesis using ToInt32_of_int [OF assms(2,3)] by simp
qed

lemma floor_between:
  fixes a z :: rat
  assumes lo: "of_int \<lfloor>a\<rfloor> \<le> z" and hi: "z \<le> of_int \<lceil>a\<rceil>"
  shows "\<lfloor>z\<rfloor> = \<lfloor>a\<rfloor> \<or> (of_int \<lfloor>z\<rfloor> = z \<and> \<lfloor>z\<rfloor> = \<lfloor>a\<rfloor> + 1)"
proof -
  have 1: "\<lfloor>a\<rfloor> \<le> \<lfloor>z\<rfloor>" using lo by (simp only: le_floor_iff)
  have "a \<le> of_int (\<lfloor>a\<rfloor> + 1)" by simp linarith
  then have 2: "\<lceil>a\<rceil> \<le> \<lfloor>a\<rfloor> + 1" by (simp only: ceiling_le_iff)
  have "z < of_int \<lceil>a\<rceil> + 1" using hi by linarith
  then have 3: "\<lfloor>z\<rfloor> \<le> \<lceil>a\<rceil>" by (simp only: floor_le_iff)
  show ?thesis
  proof (cases "\<lfloor>z\<rfloor> = \<lfloor>a\<rfloor>")
    case True
    then show ?thesis ..
  next
    case False
    with 1 2 3 have e: "\<lfloor>z\<rfloor> = \<lfloor>a\<rfloor> + 1" "\<lceil>a\<rceil> = \<lfloor>z\<rfloor>" by linarith+
    have "of_int \<lfloor>z\<rfloor> \<le> z" by simp
    moreover have "z \<le> of_int \<lfloor>z\<rfloor>" using hi e(2) by simp
    ultimately have "of_int \<lfloor>z\<rfloor> = z" by linarith
    with e(1) show ?thesis by blast
  qed
qed

text \<open>
  \<open>parseTrx\<close> where the exact product \<open>d * 10 ^ 6\<close> is at most \<open>2 ^ 31 - 1\<close> in
  magnitude: the product is rounded to a double \<open>r\<close>, at most \<open>2 ^ - 23\<close> away, and
  \<open>r\<close> is cut towards zero. The result is the integer part of \<open>d * 10 ^ 6\<close>, unless the
  rounding reached the next integer away from zero, which is then the result.
\<close>

lemma parseTrx_in_range:
  assumes d: "\<bar>d * 1000000\<bar> \<le> 2 ^ 31 - 1"
  shows "\<exists>r. round_double (d * 1000000) = Fin r
           \<and> \<bar>r - d * 1000000\<bar> \<le> 1 / 2 ^ 23
           \<and> parseTrx (Fin d) = Fin (of_int (Math_trunc r))
           \<and> (Math_trunc r = Math_trunc (d * 1000000)
              \<or> (of_int (Math_trunc r) = r
                  \<and> \<bar>Math_trunc r\<bar> = \<bar>Math_trunc (d * 1000000)\<bar> + 1))"
proof -
  define p where "p = d * 1000000"
  define a where "a = \<bar>p\<bar>"
  have a31: "a \<le> 2 ^ 31 - 1" using d by (simp add: p_def a_def)
  have "\<bar>p\<bar> < 2 ^ 53" using a31 by (simp add: a_def)
  from round_double_sandwich [OF this] obtain z where
    rd: "round_double p = Fin (sgn p * z)" and lo: "of_int \<lfloor>a\<rfloor> \<le> z" and hi: "z \<le> of_int \<lceil>a\<rceil>"
    unfolding a_def by blast
  define r where "r = sgn p * z"
  have "\<bar>p\<bar> < 2 powi 31" using a31 by (simp add: a_def)
  from round_double_abs_error [OF this] rd have "\<bar>r - p\<bar> \<le> 2 powi (31 - 54)"
    by (auto simp: r_def)
  moreover have "(2::rat) powi (31 - 54) = 1 / 2 ^ 23"
    by (simp add: power_int_def power_divide)
  ultimately have err: "\<bar>r - p\<bar> \<le> 1 / 2 ^ 23" by (simp only:)
  have a0: "0 \<le> a" by (simp add: a_def)
  then have fa: "0 \<le> \<lfloor>a\<rfloor>" by simp
  then have "(0::rat) \<le> of_int \<lfloor>a\<rfloor>" by (simp only: of_int_0_le_iff)
  with lo have z0: "0 \<le> z" by linarith
  then have fz: "0 \<le> \<lfloor>z\<rfloor>" by simp
  have "a \<le> of_int (2 ^ 31 - 1)" using a31 by simp
  then have "\<lceil>a\<rceil> \<le> 2 ^ 31 - 1" by (simp only: ceiling_le_iff)
  then have "(of_int \<lceil>a\<rceil> :: rat) \<le> of_int (2 ^ 31 - 1)" by (simp only: of_int_le_iff)
  with hi have z31: "z \<le> of_int (2 ^ 31 - 1)" by linarith
  have tr: "Math_trunc r = (if 0 < p then \<lfloor>z\<rfloor> else - \<lfloor>z\<rfloor>)"
  proof (cases "p = 0")
    case True
    then show ?thesis using lo hi by (simp add: r_def a_def Math_trunc_def)
  next
    case False
    show ?thesis
    proof (cases "0 < p")
      case True
      then show ?thesis using z0 by (simp add: r_def Math_trunc_def)
    next
      case n: False
      with False have "p < 0" by simp
      then show ?thesis using z0 by (cases "z = 0") (simp_all add: r_def Math_trunc_def)
    qed
  qed
  have tp: "Math_trunc p = (if 0 < p then \<lfloor>a\<rfloor> else - \<lfloor>a\<rfloor>)"
    by (cases "p = 0") (auto simp: Math_trunc_def a_def)
  define zf where "zf = \<lfloor>z\<rfloor>"
  have "zf \<le> 2 ^ 31 - 1" using z31 unfolding zf_def by (simp only: floor_le_iff)
  moreover have "0 \<le> zf" using fz by (simp only: zf_def)
  moreover have "Math_trunc r = (if 0 < p then zf else - zf)" by (simp only: tr zf_def)
  ultimately have "- (2 ^ 31) \<le> Math_trunc r" "Math_trunc r < 2 ^ 31" by simp_all
  then have "ToInt32 (Fin r) = Math_trunc r" by (intro ToInt32_trunc) simp_all
  then have res: "parseTrx (Fin d) = Fin (of_int (Math_trunc r))"
    using rd by (simp add: parseTrx_def Math_pow10_6 p_def r_def)
  define af where "af = \<lfloor>a\<rfloor>"
  have af0: "0 \<le> af" using fa by (simp only: af_def)
  have trz: "Math_trunc r = (if 0 < p then zf else - zf)" by (simp only: tr zf_def)
  have tpa: "Math_trunc p = (if 0 < p then af else - af)" by (simp only: tp af_def)
  from floor_between [OF lo hi]
  have "zf = af \<or> (of_int zf = z \<and> zf = af + 1)" by (simp only: zf_def af_def)
  then have dis: "Math_trunc r = Math_trunc p
      \<or> (of_int (Math_trunc r) = r \<and> \<bar>Math_trunc r\<bar> = \<bar>Math_trunc p\<bar> + 1)"
  proof
    assume "zf = af"
    then show ?thesis by (simp add: trz tpa)
  next
    assume h: "of_int zf = z \<and> zf = af + 1"
    then have "1 \<le> zf" using af0 by simp
    then have "(of_int 1 :: rat) \<le> of_int zf" by (simp only: of_int_le_iff)
    then have z1: "1 \<le> z" using h by simp
    have "p \<noteq> 0"
    proof
      assume "p = 0"
      then have "z \<le> 0" using hi by (simp add: a_def)
      with z1 show False by simp
    qed
    have "(of_int (Math_trunc r) :: rat) = (if 0 < p then of_int zf else - of_int zf)"
      by (simp add: trz)
    with \<open>p \<noteq> 0\<close> have "of_int (Math_trunc r) = r"
      using h by (simp add: r_def sgn_if)
    moreover have "\<bar>Math_trunc r\<bar> = \<bar>Math_trunc p\<bar> + 1"
      using h af0 by (simp add: trz tpa)
    ultimately show ?thesis by blast
  qed
  have rd': "round_double p = Fin r" by (simp only: rd r_def)
  from rd' err res dis show ?thesis unfolding p_def by blast
qed

text \<open>
  The round trip. The display value of \<open>b\<close> base units is a double \<open>v\<close>, at most
  \<open>2 ^ - 42\<close> away from \<open>b / 10 ^ 6\<close>; its product with \<open>10 ^ 6\<close> is a double
  \<open>r\<close>, at most \<open>2 ^ - 21\<close> away from \<open>b\<close>.
\<close>

lemma roundtrip_product:
  assumes b: "- (2 ^ 31) \<le> b" "b < 2 ^ 31"
  shows "\<exists>v r. sunToTrx (Number (Fin (of_int b))) = Fin v
            \<and> js_mul (Fin v) (Math_pow10 6) = Fin r
            \<and> \<bar>r - of_int b\<bar> \<le> 1 / 2 ^ 21"
proof -
  have b53: "\<bar>b\<bar> \<le> 2 ^ 53" using b by simp
  have "\<bar>b\<bar> \<le> 2 ^ 31" using b by simp
  then have "\<bar>of_int b :: rat\<bar> \<le> of_int (2 ^ 31)"
    by (simp only: of_int_abs [symmetric] of_int_le_iff)
  then have ab: "\<bar>of_int b :: rat\<bar> \<le> 2 ^ 31" by simp
  then have "\<bar>of_int b / 1000000 :: rat\<bar> < 2 powi 12" by (simp add: abs_divide)
  from round_double_abs_error [OF this] obtain v where
    v: "round_double (of_int b / 1000000) = Fin v" and ev: "\<bar>v - of_int b / 1000000\<bar> \<le> 2 powi (- 42)"
    by auto
  define p where "p = v * 1000000"
  have "p - of_int b = (v - of_int b / 1000000) * 1000000" by (simp add: p_def algebra_simps)
  then have "\<bar>p - of_int b\<bar> = \<bar>(v - of_int b / 1000000) * 1000000\<bar>" by (simp only:)
  also have "\<dots> = \<bar>v - of_int b / 1000000\<bar> * 1000000" by (simp only: abs_mult)
  finally have "\<bar>p - of_int b\<bar> = \<bar>v - of_int b / 1000000\<bar> * 1000000" .
  then have "\<bar>p - of_int b\<bar> \<le> 2 powi (- 42) * 1000000" using ev by simp
  also have "\<dots> \<le> 1 / 2 ^ 22" by (simp add: power_int_def power_divide)
  finally have ep: "\<bar>p - of_int b\<bar> \<le> 1 / 2 ^ 22" .
  have "\<bar>p\<bar> \<le> \<bar>p - of_int b\<bar> + \<bar>of_int b\<bar>" by simp
  also have "\<dots> \<le> 1 / 2 ^ 22 + 2 ^ 31" using ep ab by (rule add_mono)
  also have "\<dots> < 2 powi 32" by simp
  finally have "\<bar>p\<bar> < 2 powi 32" .
  from round_double_abs_error [OF this] obtain r where
    r: "round_double p = Fin r" and er: "\<bar>r - p\<bar> \<le> 2 powi (- 22)"
    by auto
  have er': "\<bar>r - p\<bar> \<le> 1 / 2 ^ 22" using er by (simp add: power_int_def power_divide)
  have "\<bar>r - of_int b\<bar> \<le> \<bar>r - p\<bar> + \<bar>p - of_int b\<bar>" by simp
  also have "\<dots> \<le> 1 / 2 ^ 22 + 1 / 2 ^ 22" using er' ep by (rule add_mono)
  also have "\<dots> = 1 / 2 ^ 21" by simp
  finally have "\<bar>r - of_int b\<bar> \<le> 1 / 2 ^ 21" .
  moreover have "sunToTrx (Number (Fin (of_int b))) = Fin v"
    by (simp add: sunToTrx_of_int [OF b53] v)
  moreover have "js_mul (Fin v) (Math_pow10 6) = Fin r" using r by (simp add: Math_pow10_6 p_def)
  ultimately show ?thesis by blast
qed

text \<open>
  So the product is cut to \<open>b\<close> when it is not below \<open>b\<close> in magnitude, and to the
  integer next to \<open>b\<close> towards zero when it is.
\<close>

lemma roundtrip_result:
  assumes b: "- (2 ^ 31) \<le> b" "b < 2 ^ 31"
    and r: "js_mul (sunToTrx (Number (Fin (of_int b)))) (Math_pow10 6) = Fin r"
  shows "parseTrx (sunToTrx (Number (Fin (of_int b))))
           = Fin (of_int (if \<bar>of_int b\<bar> \<le> \<bar>r\<bar> then b else b - sgn b))"
proof -
  from roundtrip_product [OF b] r have e: "\<bar>r - of_int b\<bar> \<le> 1 / 2 ^ 21" by auto
  then have "\<bar>r - of_int b\<bar> < 1" by (rule le_less_trans) simp
  then have e1: "r - of_int b < 1" "of_int b - r < 1" unfolding abs_less_iff by simp_all
  define n where "n = (if \<bar>of_int b\<bar> \<le> \<bar>r\<bar> then b else b - sgn b)"
  have t: "Math_trunc r = n"
  proof (cases "0 < b")
    case True
    then have b1: "(1::rat) \<le> of_int b" by simp
    then have r0: "0 \<le> r" using e1 by linarith
    show ?thesis
    proof (cases "of_int b \<le> r")
      case le: True
      have "\<lfloor>r\<rfloor> = b" using le e1 by (intro floor_unique) simp_all
      then show ?thesis using r0 le True by (simp add: Math_trunc_def n_def)
    next
      case gt: False
      have "\<lfloor>r\<rfloor> = b - 1" using gt e1 by (intro floor_unique) simp_all
      then show ?thesis using r0 gt True by (simp add: Math_trunc_def n_def)
    qed
  next
    case False
    show ?thesis
    proof (cases "b = 0")
      case True
      then have "\<lfloor>r\<rfloor> = 0" if "0 \<le> r" using that e1 by (intro floor_unique) simp_all
      moreover have "\<lfloor>- r\<rfloor> = 0" if "\<not> 0 \<le> r" using that e1 True by (intro floor_unique) simp_all
      ultimately show ?thesis using True by (simp add: Math_trunc_def n_def)
    next
      case nz: False
      with False have neg: "b < 0" by simp
      then have b1: "of_int b \<le> (- 1::rat)" by simp
      then have r0: "r < 0" using e1 by linarith
      show ?thesis
      proof (cases "r \<le> of_int b")
        case le: True
        have "\<lfloor>- r\<rfloor> = - b" using le e1 by (intro floor_unique) simp_all
        then show ?thesis using r0 le neg by (simp add: Math_trunc_def n_def)
      next
        case gt: False
        have "\<lfloor>- r\<rfloor> = - b - 1" using gt e1 by (intro floor_unique) simp_all
        then show ?thesis using r0 gt neg by (simp add: Math_trunc_def n_def)
      qed
    qed
  qed
  have "- (2 ^ 31) \<le> n" "n < 2 ^ 31" using b by (auto simp: n_def sgn_if)
  with t have "ToInt32 (Fin r) = n" by (intro ToInt32_trunc)
  then show ?thesis by (simp add: parseTrx_def r n_def)
qed

subsection \<open>The values of the scenarios\<close>

lemma round_double_249: "round_double (249 / 1000000) = Fin (4593239274353678 / 2 ^ 64)"
  using round_double_near [of "- 12" "249 / 1000000" 4593239274353678] by simp

lemma round_double_249_back:
  "round_double (4593239274353678 / 2 ^ 64 * 1000000) = Fin (8760908650119167 / 2 ^ 45)"
  using round_double_near [of 7 "4593239274353678 / 2 ^ 64 * 1000000" 8760908650119167] by simp


lemma parseTrx_1: "parseTrx (Fin 1) = Fin 1000000"
  using parseTrx_whole [of 1] by simp


lemma round_double_4999999_back:
  "round_double (5629498408313213 / 2 ^ 50 * 1000000) = Fin 4999999"
  using round_double_near [of 22 "5629498408313213 / 2 ^ 50 * 1000000" "4999999 * 2 ^ 30"]
  by simp


text \<open>
  The double nearest to 0.3 and its product with \<open>10 ^ 6\<close>, which is rounded up to
  300000; the double nearest to 2147.483648 and its product, which is rounded up to
  \<open>2 ^ 31\<close>.
\<close>

lemma round_double_3_tenths: "round_double (3 / 10) = Fin (5404319552844595 / 2 ^ 54)"
  using round_double_near [of "- 2" "3 / 10" 5404319552844595] by simp

lemma round_double_3_tenths_back:
  "round_double (5404319552844595 / 2 ^ 54 * 1000000) = Fin 300000"
  using round_double_near [of 18 "5404319552844595 / 2 ^ 54 * 1000000" "300000 * 2 ^ 34"]
  by simp

lemma round_double_2147:
  "round_double (2147483648 / 1000000) = Fin (4722366482869645 / 2 ^ 41)"
  using round_double_near [of 11 "2147483648 / 1000000" 4722366482869645] by simp

lemma round_double_2147_back:
  "round_double (4722366482869645 / 2 ^ 41 * 1000000) = Fin 2147483648"
  using round_double_near [of 30 "4722366482869645 / 2 ^ 41 * 1000000" "2 ^ 53"]
  by simp

lemma sunToTrx_5000000: "sunToTrx (Number (Fin 5000000)) = Fin 5"
  using sunToTrx_of_int [of 5000000] round_double_of_int [of 5] by simp

lemma display_5000000: "round_double (round_half_up_20 5) = Fin 5"
  using sunToTrx_5000000 by (simp add: sunToTrx_def BigNumber_pow10_6)

lemma sunToTrx_2000000: "sunToTrx (Number (Fin 2000000)) = Fin 2"
  using sunToTrx_of_int [of 2000000] round_double_of_int [of 2] by simp

lemma sunToTrx_500000: "sunToTrx (Number (Fin 500000)) = Fin (1 / 2)"
  using sunToTrx_of_int [of 500000] round_double_exact [of 1 "- 1"] by simp



lemma parseInt_5000000: "parseInt ''5000000'' = Fin 5000000"
  using round_double_of_int [of 5000000]
  by (simp add: parseInt_def digit_value_def is_white_space_def Let_def)

lemma parseInt_100000000: "parseInt ''100000000'' = Fin 100000000"
  using round_double_of_int [of 100000000]
  by (simp add: parseInt_def digit_value_def is_white_space_def Let_def)

section \<open>Unit conversion: the claims\<close>

text \<open>
  Claim C10, as amended. \<open>parseTrx d\<close> is the double nearest to \<open>d * 10 ^ 6\<close>, cut
  by \<open>| 0\<close>. When \<open>d * 10 ^ 6\<close> is at most \<open>2 ^ 31 - 1\<close> in magnitude, that double
  \<open>r\<close> is at most \<open>2 ^ - 23\<close> away from \<open>d * 10 ^ 6\<close> and the result is its integer
  part, taken towards zero. That is the integer part of \<open>d * 10 ^ 6\<close>, unless \<open>r\<close> is
  the next integer away from zero, which is then the result.
\<close>

theorem parseTrx_truncation:
  "parseTrx (Fin d) = Fin (of_int (ToInt32 (round_double (d * 1000000))))
   \<and> (\<bar>d * 1000000\<bar> \<le> 2 ^ 31 - 1 \<longrightarrow>
        (\<exists>r. round_double (d * 1000000) = Fin r
           \<and> \<bar>r - d * 1000000\<bar> \<le> 1 / 2 ^ 23
           \<and> parseTrx (Fin d) = Fin (of_int (Math_trunc r))
           \<and> (Math_trunc r = Math_trunc (d * 1000000)
              \<or> (of_int (Math_trunc r) = r
                  \<and> \<bar>Math_trunc r\<bar> = \<bar>Math_trunc (d * 1000000)\<bar> + 1))))"
  using parseTrx_in_range [of d] by (simp add: parseTrx_def Math_pow10_6)

lemma parseTrx_not_finite:
  "js_mul d (Math_pow10 6) \<in> {NaN, PosInf, NegInf} \<Longrightarrow> parseTrx d = Fin 0"
  by (auto simp: parseTrx_def)

text \<open>
  At the double nearest to 4.999999 the product is rounded up to 4999999, which is the
  result; the integer part of the exact product is 4999998.
\<close>

theorem parseTrx_truncation_witness:
  "\<bar>5629498408313213 / 2 ^ 50 * 1000000 :: rat\<bar> \<le> 2 ^ 31 - 1
   \<and> round_double (5629498408313213 / 2 ^ 50 * 1000000) = Fin 4999999
   \<and> parseTrx (Fin (5629498408313213 / 2 ^ 50)) = Fin 4999999
   \<and> Math_trunc (5629498408313213 / 2 ^ 50 * 1000000) = 4999998"
  using parseTrx_truncation [of "5629498408313213 / 2 ^ 50"] round_double_4999999_back
  by (auto simp: Math_trunc_def)

text \<open>
  As stated, with the integer part of \<open>d * 10 ^ 6\<close> itself and the bound \<open>2 ^ 31\<close>,
  the claim fails. At the double nearest to 0.3 the exact product is below 300000, with
  integer part 299999, and the result is 300000. At the double nearest to 2147.483648 the
  exact product is below \<open>2 ^ 31\<close>, with integer part 2147483647, and the result is
  \<open>- 2147483648\<close>.
\<close>

theorem parseTrx_integer_part_counterexample:
  "round_double (3 / 10) = Fin (5404319552844595 / 2 ^ 54)
   \<and> \<bar>5404319552844595 / 2 ^ 54 * 1000000 :: rat\<bar> < 2 ^ 31
   \<and> Math_trunc (5404319552844595 / 2 ^ 54 * 1000000) = 299999
   \<and> parseTrx (Fin (5404319552844595 / 2 ^ 54)) = Fin 300000
   \<and> round_double (2147483648 / 1000000) = Fin (4722366482869645 / 2 ^ 41)
   \<and> \<bar>4722366482869645 / 2 ^ 41 * 1000000 :: rat\<bar> < 2 ^ 31
   \<and> Math_trunc (4722366482869645 / 2 ^ 41 * 1000000) = 2147483647
   \<and> parseTrx (Fin (4722366482869645 / 2 ^ 41)) = Fin (- 2147483648)"
  using round_double_3_tenths round_double_3_tenths_back round_double_2147
    round_double_2147_back
  by (simp add: parseTrx_def Math_pow10_6 Math_trunc_def)



text \<open>
  In that range the product is never a whole unit away from \<open>b\<close>: the round trip
  gives \<open>b\<close>, or the integer next to \<open>b\<close> towards zero.
\<close>

lemma roundtrip_within_one:
  assumes "- (2 ^ 31) \<le> b" "b < 2 ^ 31"
  shows "parseTrx (sunToTrx (Number (Fin (of_int b)))) = Fin (of_int b)
       \<or> parseTrx (sunToTrx (Number (Fin (of_int b)))) = Fin (of_int (b - sgn b))"
proof -
  from roundtrip_product [OF assms] obtain r where
    "js_mul (sunToTrx (Number (Fin (of_int b)))) (Math_pow10 6) = Fin r"
    by auto
  from roundtrip_result [OF assms this] show ?thesis by (simp split: if_splits)
qed

text \<open>Every whole number of coins up to 2147 comes back as it is.\<close>

lemma roundtrip_whole_coins:
  assumes "\<bar>k\<bar> \<le> 2147"
  shows "parseTrx (sunToTrx (Number (Fin (of_int (k * 1000000))))) = Fin (of_int (k * 1000000))"
proof -
  have "\<bar>k\<bar> < 2 ^ 53" "\<bar>k * 1000000\<bar> \<le> 2 ^ 53" "\<bar>k * 1000000\<bar> < 2 ^ 53"
    using assms by simp_all
  then have "sunToTrx (Number (Fin (of_int (k * 1000000)))) = Fin (of_int k)"
    using round_double_of_int [of k] sunToTrx_of_int [of "k * 1000000"] by simp
  then show ?thesis using parseTrx_whole [OF assms] by simp
qed


text \<open>
  Where the product falls below \<open>b\<close> the round trip loses a unit: \<open>0.000249\<close> is
  rounded, its product with \<open>10 ^ 6\<close> falls just below 249 and is cut to 248.
\<close>

lemma roundtrip_249: "parseTrx (sunToTrx (Number (Fin 249))) = Fin 248"
proof -
  have "sunToTrx (Number (Fin 249)) = Fin (4593239274353678 / 2 ^ 64)"
    using sunToTrx_of_int [of 249] round_double_249 by simp
  then show ?thesis
    using round_double_249_back by (simp add: parseTrx_def Math_pow10_6 Math_trunc_def)
qed

section \<open>Promises and requests\<close>

lemma default_to_simps [simp]: "default_to d None = d" "default_to d (Some v) = v"
  by (simp_all add: default_to_def)

lemma default_to_idem [simp]: "default_to d (Some (default_to d x)) = default_to d x"
  by simp

text \<open>Passing the resolved network on changes nothing.\<close>

lemma getTronGridLink_default [simp]:
  "getTronGridLink env (Some (default_to ''mainnet'' network)) = getTronGridLink env network"
  by (simp add: getTronGridLink_def)

lemma requestTronGrid_default [simp]:
  "requestTronGrid env remote (Some (default_to ''mainnet'' network)) url method body =
   requestTronGrid env remote network url method body"
  by (simp add: requestTronGrid_def)

lemma getLatestBlock_default [simp]:
  "getLatestBlock env (Some (default_to ''mainnet'' network)) = getLatestBlock env network"
  by (simp add: getLatestBlock_def)

lemma getTrxBalance_default [simp]:
  "getTrxBalance env addr (Some (default_to ''mainnet'' network)) = getTrxBalance env addr network"
  by (simp add: getTrxBalance_def)

lemma getTRC20Balance_default [simp]:
  "getTRC20Balance env addr c decimals (Some (default_to ''mainnet'' network)) =
   getTRC20Balance env addr c decimals network"
  by (simp add: getTRC20Balance_def)

lemma broadcastTransaction_default [simp]:
  "broadcastTransaction env (Some (default_to ''mainnet'' network)) t =
   broadcastTransaction env network t"
  by (simp add: broadcastTransaction_def)

lemma sendTrx_default [simp]:
  "sendTrx env key to trx_amount (Some (default_to ''mainnet'' network)) =
   sendTrx env key to trx_amount network"
  by (simp add: sendTrx_def)

lemma trongrid_link_default [simp]:
  "trongrid_link (Some (default_to ''mainnet'' network)) = trongrid_link network"
  by (simp add: trongrid_link_def)

lemma broadcast_request_default [simp]:
  "broadcast_request env (Some (default_to ''mainnet'' network)) t = broadcast_request env network t"
  by (simp add: broadcast_request_def)

lemma mainnet_is_default:
  "getLatestBlock env (Some ''mainnet'') = getLatestBlock env None"
  "getTrxBalance env addr (Some ''mainnet'') = getTrxBalance env addr None"
  "getTRC20Balance env addr c decimals (Some ''mainnet'') = getTRC20Balance env addr c decimals None"
  "broadcastTransaction env (Some ''mainnet'') t = broadcastTransaction env None t"
  "sendTrx env key to trx_amount (Some ''mainnet'') = sendTrx env key to trx_amount None"
  using getLatestBlock_default [of env None] getTrxBalance_default [of env addr None]
    getTRC20Balance_default [of env addr c decimals None]
    broadcastTransaction_default [of env None t] sendTrx_default [of env key to trx_amount None]
  by simp_all

text \<open>A request, with and without the credential.\<close>

lemma getTronGridLink_eq:
  "getTronGridLink env network =
     (if truthy (TRONGRID_API_KEY env) then Inr (trongrid_link network)
      else Inl (Error ''Please provide TRONGRID_API_KEY''))"
  by (simp add: getTronGridLink_def trongrid_link_def Let_def)

lemma requestTronGrid_linked:
  assumes "getTronGridLink env network = Inr baseUrl"
  shows "requestTronGrid env remote network url method body s =
    (case remote s (baseUrl @ ''/'' @ url) (default_to ''get'' method) body of
       Inl e \<Rightarrow> Inl (Thrown e) | Inr r \<Rightarrow> Inr r,
     s @ [Fetch (baseUrl @ ''/'' @ url) (default_to ''get'' method) body
            [(''content-type'', ''application/json''),
             (''TRON-PRO-API-KEY'', default_to [] (TRONGRID_API_KEY env))]])"
  using assms by (simp add: requestTronGrid_def Let_def)

lemma requestTronGrid_eq:
  "requestTronGrid env remote network url method body s =
     (if truthy (TRONGRID_API_KEY env) then
        (case remote s (trongrid_link network @ ''/'' @ url) (default_to ''get'' method) body of
           Inl e \<Rightarrow> Inl (Thrown e) | Inr r \<Rightarrow> Inr r,
         s @ [Fetch (trongrid_link network @ ''/'' @ url) (default_to ''get'' method) body
                [(''content-type'', ''application/json''),
                 (''TRON-PRO-API-KEY'', default_to [] (TRONGRID_API_KEY env))]])
      else (Inl (Error ''Please provide TRONGRID_API_KEY''), s))"
  by (simp add: requestTronGrid_def getTronGridLink_eq reject_def Let_def)

lemma getLatestBlock_key:
  "getLatestBlock env network s = (Inr blk, s') \<Longrightarrow> truthy (TRONGRID_API_KEY env)"
  by (auto simp: getLatestBlock_def await_def requestTronGrid_eq Let_def split: if_splits)

lemma broadcastTransaction_keyed:
  assumes "truthy (TRONGRID_API_KEY env)"
  shows "broadcastTransaction env network t s =
    (case broadcasthex env s (trongrid_link network @ ''/wallet/broadcasthex'') ''post''
            (Some [(''transaction'', hex t)]) of
       Inl e \<Rightarrow> Inl (Thrown e) | Inr r \<Rightarrow> Inr r,
     s @ [broadcast_request env network t])"
  using assms
  by (simp add: broadcastTransaction_def requestTronGrid_eq broadcast_request_def Let_def
      trongrid_link_def)

subsection \<open>Failures that pass through\<close>

lemma requestTronGrid_unguarded:
  "fst (requestTronGrid env remote network url method body s) = Inl e \<Longrightarrow> unguarded e"
  by (auto simp: requestTronGrid_eq unguarded_def split: if_splits sum.splits)

lemma await_unguarded:
  assumes "\<And>e. fst (m s) = Inl e \<Longrightarrow> unguarded e"
    and "\<And>x s'. m s = (Inr x, s') \<Longrightarrow> fst (f x s') = Inl e \<Longrightarrow> unguarded e"
    and "fst (await m f s) = Inl e"
  shows "unguarded e"
proof (cases "m s")
  case (Pair r s')
  then show ?thesis using assms by (cases r) (auto simp: await_def)
qed

lemma getLatestBlock_unguarded:
  "fst (getLatestBlock env network s) = Inl e \<Longrightarrow> unguarded e"
  unfolding getLatestBlock_def Let_def
  by (erule await_unguarded [rotated 2]) (auto simp: resolve_def dest: requestTronGrid_unguarded)

lemma getTrxBalance_unguarded:
  "fst (getTrxBalance env addr network s) = Inl e \<Longrightarrow> unguarded e"
  unfolding getTrxBalance_def Let_def
  by (erule await_unguarded [rotated 2])
     (auto simp: resolve_def dest: requestTronGrid_unguarded split: if_splits)

lemma getTRC20Balance_unguarded:
  "fst (getTRC20Balance env addr c decimals network s) = Inl e \<Longrightarrow> unguarded e"
  unfolding getTRC20Balance_def Let_def
  by (erule await_unguarded [rotated 2])
     (auto simp: resolve_def dest: requestTronGrid_unguarded split: if_splits)

lemma broadcastTransaction_unguarded:
  "fst (broadcastTransaction env network t s) = Inl e \<Longrightarrow> unguarded e"
  unfolding broadcastTransaction_def Let_def by (rule requestTronGrid_unguarded)

subsection \<open>Events of a request\<close>

lemma requestTronGrid_events:
  "\<exists>evs. snd (requestTronGrid env remote network url method body s) = s @ evs
     \<and> \<not> list_ex token_construction evs \<and> \<not> list_ex native_construction evs"
  by (simp add: requestTronGrid_eq token_construction_def native_construction_def)

lemma getLatestBlock_events:
  "\<exists>evs. snd (getLatestBlock env network s) = s @ evs
     \<and> \<not> list_ex token_construction evs \<and> \<not> list_ex native_construction evs"
  by (simp add: getLatestBlock_def await_def resolve_def requestTronGrid_eq Let_def
      token_construction_def native_construction_def split: sum.splits)

lemma getTrxBalance_events:
  "\<exists>evs. snd (getTrxBalance env addr network s) = s @ evs
     \<and> \<not> list_ex token_construction evs \<and> \<not> list_ex native_construction evs"
  by (simp add: getTrxBalance_def await_def resolve_def requestTronGrid_eq Let_def
      token_construction_def native_construction_def split: sum.splits)

lemma getTRC20Balance_events:
  "\<exists>evs. snd (getTRC20Balance env addr c decimals network s) = s @ evs
     \<and> \<not> list_ex token_construction evs \<and> \<not> list_ex native_construction evs"
  by (simp add: getTRC20Balance_def await_def resolve_def requestTronGrid_eq Let_def
      token_construction_def native_construction_def split: sum.splits)

lemma broadcastTransaction_events:
  "\<exists>evs. snd (broadcastTransaction env network t s) = s @ evs
     \<and> \<not> list_ex token_construction evs \<and> \<not> list_ex native_construction evs"
  unfolding broadcastTransaction_def Let_def by (rule requestTronGrid_events)

section \<open>The scenario environment, evaluated\<close>

lemma scenario_key: "truthy (TRONGRID_API_KEY (scenario_env accs lst))"
  by (simp add: scenario_env_def truthy_def)

lemma scenario_link: "getTronGridLink (scenario_env accs lst) None = Inr ''https://api.trongrid.io''"
  by (simp add: getTronGridLink_def scenario_env_def truthy_def)

lemma scenario_link_mainnet:
  "getTronGridLink (scenario_env accs lst) (Some ''mainnet'') = Inr ''https://api.trongrid.io''"
  by (simp add: getTronGridLink_def scenario_env_def truthy_def)

lemma scenario_trongrid_link:
  "trongrid_link None = ''https://api.trongrid.io''"
  "trongrid_link (Some ''mainnet'') = ''https://api.trongrid.io''"
  by (simp_all add: trongrid_link_def)

lemma scenario_fromTronPrivateKey:
  "fromTronPrivateKey (scenario_env accs lst) key = Inr (scenario_wallet key)"
  by (simp add: scenario_env_def scenario_wallet_def)

lemma scenario_getLatestBlock:
  "getLatestBlock (scenario_env accs lst) None s =
     (Inr scenario_block, s @ [scenario_request ''wallet/getnowblock'' ''get'' None])"
  by (simp add: getLatestBlock_def await_def resolve_def requestTronGrid_eq scenario_key
      scenario_trongrid_link scenario_block_def scenario_request_def
      scenario_env_def truthy_def Let_def)

lemma scenario_getTrxBalance:
  assumes "accs (''https://api.trongrid.io/v1/accounts/'' @ addr) = [acc]"
  shows "getTrxBalance (scenario_env accs lst) addr None s =
     (Inr \<lparr>sun = balance acc, trx = sunToTrx (balance acc)\<rparr>,
      s @ [scenario_request (''v1/accounts/'' @ addr) ''get'' None])"
  using assms
  by (simp add: getTrxBalance_def await_def resolve_def requestTronGrid_eq scenario_key
      scenario_trongrid_link scenario_request_def Let_def
      scenario_env_def truthy_def Let_def)

lemma scenario_getTRC20Balance:
  assumes "accs (''https://api.trongrid.io/v1/accounts/'' @ addr) = [acc]"
    and "trc20 acc = [[(c, v)]]"
  shows "getTRC20Balance (scenario_env accs lst) addr c decimals None s =
     (Inr \<lparr>sun = Number (parseInt v),
           trx = parseFloat_toFixed
                   (BigNumber_div (BigNumber (Number (parseInt v))) (Fin 1000000))\<rparr>,
      s @ [scenario_request (''v1/accounts/'' @ addr) ''get'' None])"
  using assms
  by (simp add: getTRC20Balance_def await_def resolve_def requestTronGrid_eq scenario_key
      scenario_trongrid_link scenario_request_def Let_def
      getTRC20Balance_loop.simps [of _ _ 0] BigNumber_pow10_6
      scenario_env_def truthy_def Let_def)

lemma scenario_generateTransaction:
  "generateTransaction (scenario_env accs lst) w to a kind blk = Inr \<lparr>hex = ''0a01''\<rparr>"
  by (simp add: scenario_env_def)

lemma scenario_transferTRC20Token:
  "transferTRC20Token (scenario_env accs lst) w c to a blk = Inr \<lparr>hex = ''0a02''\<rparr>"
  by (simp add: scenario_env_def)

lemma scenario_broadcast_request:
  "broadcast_request (scenario_env accs lst) None t =
     scenario_request ''wallet/broadcasthex'' ''post'' (Some [(''transaction'', hex t)])"
  by (simp add: broadcast_request_def scenario_request_def scenario_trongrid_link)
     (simp add: scenario_env_def)

lemma scenario_broadcastTransaction:
  "broadcastTransaction (scenario_env accs lst) None t s =
     (Inr [(''result'', JBool True)],
      s @ [scenario_request ''wallet/broadcasthex'' ''post'' (Some [(''transaction'', hex t)])])"
  by (simp add: broadcastTransaction_keyed scenario_key scenario_broadcast_request)
     (simp add: scenario_env_def)

lemma scenario_backed_sender:
  "scenario_backed B (''https://api.trongrid.io/v1/accounts/'' @ ''Tsender'')
     = [\<lparr>balance = Number (Fin 0), trc20 = [[(''TContract'', ''5000000'')]]\<rparr>]"
  by (simp add: scenario_backed_def)

lemma scenario_backed_backer:
  "scenario_backed B (''https://api.trongrid.io/v1/accounts/'' @ ''Tbacker'')
     = [\<lparr>balance = Number (Fin (of_int B)), trc20 = []\<rparr>]"
  by (simp add: scenario_backed_def)

lemma scenario_backed_token_balance:
  "getTRC20Balance (scenario_env (scenario_backed B) scenario_listing) ''Tsender'' ''TContract''
     6 None s
   = (Inr \<lparr>sun = Number (Fin 5000000), trx = Fin 5\<rparr>,
      s @ [scenario_request ''v1/accounts/Tsender'' ''get'' None])"
  using scenario_getTRC20Balance [where accs = "scenario_backed B" and addr = "''Tsender''"
      and acc = "\<lparr>balance = Number (Fin 0), trc20 = [[(''TContract'', ''5000000'')]]\<rparr>"
      and c = "''TContract''" and v = "''5000000''" and lst = scenario_listing
      and decimals = 6 and s = s]
    scenario_backed_sender [of B]
  by (simp add: parseInt_5000000 display_5000000)

section \<open>Balances\<close>

text \<open>
  Claim C8. When the account lookup answers with no record, \<open>getTrxBalance\<close> returns
  the zero amount and raises nothing.
\<close>

theorem getTrxBalance_no_account_record:
  "getTronGridLink env network = Inr baseUrl \<Longrightarrow>
   accounts env s (baseUrl @ ''/v1/accounts/'' @ addr) ''get'' None = Inr [] \<Longrightarrow>
   fst (getTrxBalance env addr network s) = Inr \<lparr>sun = Number (Fin 0), trx = Fin 0\<rparr>"
  by (simp add: getTrxBalance_def await_def resolve_def requestTronGrid_linked)

theorem getTrxBalance_no_account_record_witness:
  "getTronGridLink (scenario_env (\<lambda>link. []) \<lparr>data = [], success = True, error = []\<rparr>) None
     = Inr ''https://api.trongrid.io''
   \<and> accounts (scenario_env (\<lambda>link. []) \<lparr>data = [], success = True, error = []\<rparr>) []
       (''https://api.trongrid.io'' @ ''/v1/accounts/'' @ ''TSender'') ''get'' None = Inr []
   \<and> fst (getTrxBalance (scenario_env (\<lambda>link. []) \<lparr>data = [], success = True, error = []\<rparr>)
            ''TSender'' None [])
       = Inr \<lparr>sun = Number (Fin 0), trx = Fin 0\<rparr>"
  using getTrxBalance_no_account_record
    [of "scenario_env (\<lambda>link. []) \<lparr>data = [], success = True, error = []\<rparr>" None
        "''https://api.trongrid.io''" "[]" "''TSender''"]
  by (simp add: scenario_link) (simp add: scenario_env_def)

text \<open>The loop of \<open>getTRC20Balance\<close> finds what \<open>find\<close> finds.\<close>

lemma getTRC20Balance_loop_find:
  "sun (getTRC20Balance_loop tokens c i) =
     (case find (spec_contract_matches c) (drop i tokens) of
        Some ((k, v) # _) \<Rightarrow> Number (parseInt v)
      | _ \<Rightarrow> Number (Fin 0))"
proof (induction tokens c i rule: getTRC20Balance_loop.induct)
  case (1 tokens c i)
  show ?case
  proof (cases "i < length tokens")
    case False
    then show ?thesis by (simp add: getTRC20Balance_loop.simps [of tokens c i])
  next
    case True
    then have d: "drop i tokens = tokens ! i # drop (i + 1) tokens"
      by (simp add: Cons_nth_drop_Suc)
    show ?thesis
    proof (cases "tokens ! i")
      case Nil
      with True 1(1) [OF True refl Nil] show ?thesis
        by (simp add: getTRC20Balance_loop.simps [of tokens c i] d spec_contract_matches_def)
    next
      case (Cons kv rest)
      obtain k v where kv: "kv = (k, v)" by (cases kv)
      show ?thesis
      proof (cases "k = c")
        case True
        with \<open>i < length tokens\<close> Cons kv show ?thesis
          by (simp add: getTRC20Balance_loop.simps [of tokens c i] d spec_contract_matches_def Let_def)
      next
        case False
        with \<open>i < length tokens\<close> Cons kv 1(2) [OF \<open>i < length tokens\<close> refl Cons kv [symmetric]]
        show ?thesis
          by (simp add: getTRC20Balance_loop.simps [of tokens c i] d spec_contract_matches_def)
      qed
    qed
  qed
qed

lemma getTRC20Balance_linked:
  assumes "getTronGridLink env network = Inr baseUrl"
    and "accounts env s (baseUrl @ ''/v1/accounts/'' @ addr) ''get'' None = Inr records"
  shows "fst (getTRC20Balance env addr c decimals network s) =
    Inr (case records of
           [] \<Rightarrow> \<lparr>sun = Number (Fin 0), trx = Fin 0\<rparr>
         | acc # _ \<Rightarrow>
             if trc20 acc = [] then \<lparr>sun = Number (Fin 0), trx = Fin 0\<rparr>
             else getTRC20Balance_loop (trc20 acc) c 0)"
  using assms
  by (cases records)
     (simp_all add: getTRC20Balance_def await_def resolve_def requestTronGrid_linked Let_def)

text \<open>So the base units returned are what \<open>parseInt\<close> reads in the entry found.\<close>

lemma getTRC20Balance_entry:
  assumes "getTronGridLink env network = Inr baseUrl"
    and "accounts env s (baseUrl @ ''/v1/accounts/'' @ addr) ''get'' None = Inr records"
  shows "\<exists>b. fst (getTRC20Balance env addr c decimals network s) = Inr b
           \<and> sun b = (case spec_token_entry c records of
                         None \<Rightarrow> Number (Fin 0)
                       | Some v \<Rightarrow> Number (parseInt v))"
proof (cases records)
  case Nil
  then show ?thesis
    by (simp add: getTRC20Balance_linked [OF assms] spec_token_entry_def)
next
  case (Cons acc rest)
  show ?thesis
  proof (cases "trc20 acc")
    case Nil
    with Cons show ?thesis
      by (simp add: getTRC20Balance_linked [OF assms] spec_token_entry_def)
  next
    case c: (Cons token tokens)
    with Cons show ?thesis
      by (simp add: getTRC20Balance_linked [OF assms] spec_token_entry_def
          getTRC20Balance_loop_find
          split: option.splits list.splits prod.splits)
  qed
qed

text \<open>
  \<open>parseInt\<close> reads a string of decimal digits as the double nearest to the number
  that the digits denote, which is that number up to \<open>2 ^ 53\<close>.
\<close>

lemma decimal_digit:
  assumes "c \<in> set ''0123456789''"
  shows "digit_value 10 c = Some (of_char c - 48)" and "\<not> is_white_space c"
    and "c \<noteq> CHR ''-''" and "c \<noteq> CHR ''+''" and "c \<noteq> CHR ''x''" and "c \<noteq> CHR ''X''"
  using assms by (auto simp: digit_value_def is_white_space_def)

lemma digits_value_decimal:
  "list_all (\<lambda>c. c \<in> set ''0123456789'') s \<Longrightarrow>
   digits_value 10 acc s = foldl (\<lambda>n c. 10 * n + (of_char c - 48)) acc s"
proof (induction s arbitrary: acc)
  case Nil
  show ?case by simp
next
  case (Cons c cs)
  then have c: "c \<in> set ''0123456789''" and cs: "list_all (\<lambda>c. c \<in> set ''0123456789'') cs"
    by simp_all
  show ?case using Cons.IH [OF cs] by (simp add: decimal_digit(1) [OF c] mult.commute)
qed

lemma parseInt_decimal:
  assumes "spec_decimal_value v = Some n"
  shows "parseInt v = round_double (of_nat n)"
proof -
  from assms have ne: "v \<noteq> []" and all: "list_all (\<lambda>c. c \<in> set ''0123456789'') v"
    and n: "n = foldl (\<lambda>n c. 10 * n + (of_char c - 48)) 0 v"
    by (simp_all add: spec_decimal_value_def split: if_splits)
  obtain c cs where v: "v = c # cs" using ne by (cases v) auto
  have c: "c \<in> set ''0123456789''" and cs: "list_all (\<lambda>c. c \<in> set ''0123456789'') cs"
    using all v by simp_all
  have dw: "dropWhile is_white_space v = v" using decimal_digit(2) [OF c] v by simp
  have sign: "take 1 v \<noteq> ''-''" "take 1 v \<noteq> ''+''" using decimal_digit(3,4) [OF c] v by simp_all
  have hex: "take 2 v \<noteq> ''0x'' \<and> take 2 v \<noteq> ''0X''"
  proof (cases cs)
    case Nil
    then show ?thesis by (simp add: v)
  next
    case (Cons d ds)
    then have "d \<in> set ''0123456789''" using cs by simp
    from decimal_digit(5,6) [OF this] Cons show ?thesis by (simp add: v)
  qed
  have first: "(case v of [] \<Rightarrow> a | c' # _ \<Rightarrow> f c') = f c" for a :: number and f
    by (simp add: v)
  have dv: "digits_value 10 0 v = n" by (simp only: digits_value_decimal [OF all] n)
  have dc: "digit_value 10 c \<noteq> None" by (simp add: decimal_digit(1) [OF c])
  have "parseInt v =
      (case v of
         [] \<Rightarrow> NaN
       | c # _ \<Rightarrow>
           if digit_value 10 c = None then NaN
           else round_double (of_int (1 * int (digits_value 10 0 v))))"
    using sign hex by (simp add: parseInt_def dw Let_def)
  also have "\<dots> = round_double (of_int (1 * int (digits_value 10 0 v)))"
    using dc by (simp only: first) simp
  also have "\<dots> = round_double (of_nat n)" by (simp add: dv)
  finally show ?thesis .
qed

lemma round_double_of_nat:
  assumes "n \<le> 2 ^ 53"
  shows "round_double (of_nat n) = Fin (of_nat n)"
proof (cases "n = 2 ^ 53")
  case True
  then show ?thesis using round_double_exact [of "2 ^ 52" 1] by simp
next
  case False
  with assms have "\<bar>int n\<bar> < 2 ^ 53" by simp
  from round_double_of_int [OF this] show ?thesis by simp
qed

text \<open>
  Claim C9, as amended. \<open>getTRC20Balance\<close> returns, as base units, zero when the
  specification finds no entry (no record, no token entry, or none whose contract
  address is exactly the requested one). When it finds one whose value is a string of
  decimal digits denoting \<open>n\<close>, it returns the double nearest to \<open>n\<close>, which is \<open>n\<close>
  itself up to \<open>2 ^ 53\<close>.
\<close>

theorem getTRC20Balance_scans:
  "getTronGridLink env network = Inr baseUrl \<Longrightarrow>
   accounts env s (baseUrl @ ''/v1/accounts/'' @ addr) ''get'' None = Inr records \<Longrightarrow>
   \<exists>b. fst (getTRC20Balance env addr c decimals network s) = Inr b
       \<and> (spec_token_entry c records = None \<longrightarrow> sun b = Number (Fin 0))
       \<and> (spec_token_entry c records = Some v \<and> spec_decimal_value v = Some n \<longrightarrow>
            sun b = Number (round_double (of_nat n))
            \<and> (n \<le> 2 ^ 53 \<longrightarrow> sun b = Number (Fin (of_nat n))))"
proof -
  assume l: "getTronGridLink env network = Inr baseUrl"
    and a: "accounts env s (baseUrl @ ''/v1/accounts/'' @ addr) ''get'' None = Inr records"
  from getTRC20Balance_entry [OF l a, of c decimals] obtain b where
    b: "fst (getTRC20Balance env addr c decimals network s) = Inr b"
    and sb: "sun b = (case spec_token_entry c records of
                         None \<Rightarrow> Number (Fin 0)
                       | Some v \<Rightarrow> Number (parseInt v))"
    by blast
  have none: "spec_token_entry c records = None \<longrightarrow> sun b = Number (Fin 0)"
    by (simp add: sb)
  have some: "spec_token_entry c records = Some v \<and> spec_decimal_value v = Some n \<longrightarrow>
            sun b = Number (round_double (of_nat n))
            \<and> (n \<le> 2 ^ 53 \<longrightarrow> sun b = Number (Fin (of_nat n)))"
    by (auto simp: sb parseInt_decimal round_double_of_nat)
  show ?thesis by (rule exI [of _ b]) (intro conjI b none some)
qed

text \<open>The entries of the scenario with three tokens.\<close>

lemma spec_token_entry_scenario:
  "spec_token_entry ''TContract'' scenario_tokens = Some ''5000000''"
  "spec_token_entry ''tcontract'' scenario_tokens = Some ''9''"
  "spec_token_entry ''TCONTRACT'' scenario_tokens = None"
  by (simp_all add: spec_token_entry_def scenario_tokens_def spec_contract_matches_def)

lemma spec_decimal_value_5000000: "spec_decimal_value ''5000000'' = Some 5000000"
  by (simp add: spec_decimal_value_def)

text \<open>
  With three entries, the second is found for \<open>TContract\<close>; the third, which differs
  in case only, is not, and nothing is found for \<open>TCONTRACT\<close>.
\<close>

theorem getTRC20Balance_scans_witness:
  "getTronGridLink (scenario_env (\<lambda>link. scenario_tokens) \<lparr>data = [], success = True, error = []\<rparr>)
     None = Inr ''https://api.trongrid.io''
   \<and> accounts (scenario_env (\<lambda>link. scenario_tokens) \<lparr>data = [], success = True, error = []\<rparr>)
       [] (''https://api.trongrid.io'' @ ''/v1/accounts/'' @ ''TSender'') ''get'' None
       = Inr scenario_tokens
   \<and> spec_token_entry ''TContract'' scenario_tokens = Some ''5000000''
   \<and> spec_decimal_value ''5000000'' = Some 5000000
   \<and> (5000000::nat) \<le> 2 ^ 53
   \<and> (\<exists>b. fst (getTRC20Balance
                 (scenario_env (\<lambda>link. scenario_tokens) \<lparr>data = [], success = True, error = []\<rparr>)
                 ''TSender'' ''TContract'' 6 None []) = Inr b
          \<and> sun b = Number (Fin 5000000))
   \<and> spec_token_entry ''TCONTRACT'' scenario_tokens = None
   \<and> (\<exists>b. fst (getTRC20Balance
                 (scenario_env (\<lambda>link. scenario_tokens) \<lparr>data = [], success = True, error = []\<rparr>)
                 ''TSender'' ''TCONTRACT'' 6 None []) = Inr b
          \<and> sun b = Number (Fin 0))"
proof -
  let ?env = "scenario_env (\<lambda>link. scenario_tokens) \<lparr>data = [], success = True, error = []\<rparr>"
  have l: "getTronGridLink ?env None = Inr ''https://api.trongrid.io''" by (rule scenario_link)
  have a: "accounts ?env [] (''https://api.trongrid.io'' @ ''/v1/accounts/'' @ ''TSender'')
      ''get'' None = Inr scenario_tokens"
    by (simp add: scenario_env_def)
  from getTRC20Balance_scans [OF l a, of "''TContract''" 6 "''5000000''" 5000000]
    getTRC20Balance_scans [OF l a, of "''TCONTRACT''" 6 "''5000000''" 5000000] l a
  show ?thesis
    by (simp only: spec_token_entry_scenario spec_decimal_value_5000000) auto
qed

text \<open>A value of 19 digits, as \<open>parseInt\<close> reads it.\<close>

lemma parseInt_1234567890123456789:
  "parseInt ''1234567890123456789'' = Fin 1234567890123456768"
proof -
  have "spec_decimal_value ''1234567890123456789'' = Some 1234567890123456789"
    by (simp add: spec_decimal_value_def)
  from parseInt_decimal [OF this] show ?thesis
    using round_double_near [of 60 1234567890123456789 4822530820794753] by simp
qed

text \<open>
  As stated, for every entry, the claim fails where the value is no double: an entry of
  1234567890123456789 base units (a little over one unit of a token with 18 decimals)
  is returned as 1234567890123456768.
\<close>

theorem getTRC20Balance_rounds_counterexample:
  "spec_token_entry ''TContract''
       [\<lparr>balance = Number (Fin 0), trc20 = [[(''TContract'', ''1234567890123456789'')]]\<rparr>]
     = Some ''1234567890123456789''
   \<and> spec_decimal_value ''1234567890123456789'' = Some 1234567890123456789
   \<and> (\<exists>b. fst (getTRC20Balance
                 (scenario_env
                    (\<lambda>link. [\<lparr>balance = Number (Fin 0),
                               trc20 = [[(''TContract'', ''1234567890123456789'')]]\<rparr>])
                    \<lparr>data = [], success = True, error = []\<rparr>)
                 ''TSender'' ''TContract'' 18 None []) = Inr b
          \<and> sun b = Number (Fin 1234567890123456768))
   \<and> (1234567890123456768::rat) \<noteq> 1234567890123456789"
proof -
  let ?records = "[\<lparr>balance = Number (Fin 0),
                    trc20 = [[(''TContract'', ''1234567890123456789'')]]\<rparr>]"
  let ?env = "scenario_env (\<lambda>link. ?records) \<lparr>data = [], success = True, error = []\<rparr>"
  have l: "getTronGridLink ?env None = Inr ''https://api.trongrid.io''" by (rule scenario_link)
  have a: "accounts ?env [] (''https://api.trongrid.io'' @ ''/v1/accounts/'' @ ''TSender'')
      ''get'' None = Inr ?records"
    by (simp add: scenario_env_def)
  have e: "spec_token_entry ''TContract'' ?records = Some ''1234567890123456789''"
    by (simp add: spec_token_entry_def spec_contract_matches_def)
  have v: "spec_decimal_value ''1234567890123456789'' = Some 1234567890123456789"
    by (simp add: spec_decimal_value_def)
  from getTRC20Balance_entry [OF l a, of "''TContract''" 18] e v
  show ?thesis by (simp add: parseInt_1234567890123456789)
qed

text \<open>
  Claim C3 does not hold of the code: the display value of a token balance is the base
  units over \<open>10 ^ 6\<close> whatever \<open>decimals\<close> is. With \<open>decimals = 8\<close> and
  \<open>10 ^ 8\<close> base units the code returns 100, where the claim has 1.
\<close>

theorem getTRC20Balance_ignores_decimals:
  "fst (getTRC20Balance
          (scenario_env
             (\<lambda>link. [\<lparr>balance = Number (Fin 0),
                        trc20 = [[(''TContract'', ''100000000'')]]\<rparr>])
             \<lparr>data = [], success = True, error = []\<rparr>)
          ''TSender'' ''TContract'' 8 None [])
   = Inr \<lparr>sun = Number (Fin 100000000), trx = Fin 100\<rparr>"
proof -
  let ?env = "scenario_env
             (\<lambda>link. [\<lparr>balance = Number (Fin 0),
                        trc20 = [[(''TContract'', ''100000000'')]]\<rparr>])
             \<lparr>data = [], success = True, error = []\<rparr>"
  have l: "getTronGridLink ?env None = Inr ''https://api.trongrid.io''" by (rule scenario_link)
  have a: "accounts ?env [] (''https://api.trongrid.io'' @ ''/v1/accounts/'' @ ''TSender'')
      ''get'' None
      = Inr [\<lparr>balance = Number (Fin 0), trc20 = [[(''TContract'', ''100000000'')]]\<rparr>]"
    by (simp add: scenario_env_def)
  have r: "round_double 100 = Fin 100" using round_double_of_int [of 100] by simp
  have "round_half_up_20 100 = 100" using round_half_up_20_millionths [of 100000000] by simp
  then show ?thesis
    using r
    by (simp add: getTRC20Balance_linked [OF l a] getTRC20Balance_loop.simps [of _ _ 0]
        parseInt_100000000 BigNumber_pow10_6)
qed

section \<open>Transaction listings\<close>

text \<open>
  Claim C7. On an answer with \<open>success: false\<close> both listings raise an \<open>Error\<close> whose
  message is the remote one; on \<open>success: true\<close> they return the data.
\<close>

theorem listing_failure_raises:
  "getTronGridLink env network = Inr baseUrl \<Longrightarrow>
   (transactions env s (baseUrl @ ''/v1/accounts/'' @ addr @ ''/transactions'') ''get'' None
      = Inr r \<longrightarrow>
    fst (getTrxTransactions env addr network s)
      = (if success r then Inr (data r) else Inl (Error (error r))))
   \<and> (transactions env s (baseUrl @ ''/v1/accounts/'' @ addr @ ''/transactions/trc20'') ''get'' None
      = Inr r' \<longrightarrow>
    fst (getTrc20Transactions env addr network s)
      = (if success r' then Inr (data r') else Inl (Error (error r'))))"
  by (simp add: getTrxTransactions_def getTrc20Transactions_def await_def resolve_def reject_def
      requestTronGrid_linked)

theorem listing_failure_raises_witness:
  "getTronGridLink (scenario_env (\<lambda>link. []) \<lparr>data = [], success = False, error = ''x''\<rparr>) None
     = Inr ''https://api.trongrid.io''
   \<and> transactions (scenario_env (\<lambda>link. []) \<lparr>data = [], success = False, error = ''x''\<rparr>) []
       (''https://api.trongrid.io'' @ ''/v1/accounts/'' @ ''TSender'' @ ''/transactions'') ''get'' None
       = Inr \<lparr>data = [], success = False, error = ''x''\<rparr>
   \<and> fst (getTrxTransactions
            (scenario_env (\<lambda>link. []) \<lparr>data = [], success = False, error = ''x''\<rparr>)
            ''TSender'' None []) = Inl (Error ''x'')
   \<and> transactions (scenario_env (\<lambda>link. []) \<lparr>data = [], success = False, error = ''x''\<rparr>) []
       (''https://api.trongrid.io'' @ ''/v1/accounts/'' @ ''TSender'' @ ''/transactions/trc20'')
       ''get'' None
       = Inr \<lparr>data = [], success = False, error = ''x''\<rparr>
   \<and> fst (getTrc20Transactions
            (scenario_env (\<lambda>link. []) \<lparr>data = [], success = False, error = ''x''\<rparr>)
            ''TSender'' None []) = Inl (Error ''x'')"
  using listing_failure_raises
    [of "scenario_env (\<lambda>link. []) \<lparr>data = [], success = False, error = ''x''\<rparr>" None
        "''https://api.trongrid.io''" "[]" "''TSender''"
        "\<lparr>data = [], success = False, error = ''x''\<rparr>"
        "\<lparr>data = [], success = False, error = ''x''\<rparr>"]
  by (simp add: scenario_link) (simp add: scenario_env_def)

lemma listing_success_example:
  "fst (getTrxTransactions
          (scenario_env (\<lambda>link. []) \<lparr>data = [JString ''tx''], success = True, error = []\<rparr>)
          ''TSender'' None []) = Inr [JString ''tx'']"
  by (simp add: getTrxTransactions_def await_def resolve_def requestTronGrid_linked
      scenario_link_mainnet)
     (simp add: scenario_env_def resolve_def)

section \<open>Transfers\<close>

text \<open>What \<open>sendTrx\<close> and \<open>sendTRC20Token\<close> do once the balance is fetched.\<close>

lemma sendTrx_steps:
  assumes "fromTronPrivateKey env key = Inr wallet"
    and "getLatestBlock env network s = (Inr latestBlock, s1)"
    and "getTrxBalance env (getAddress wallet) network s1 = (Inr b, s2)"
  shows "sendTrx env key to trx_amount network s =
    (if BigNumber_gte (parseTrx trx_amount) (BigNumber (sun b))
     then (Inl (Error ''Insufficient balance''), s2)
     else
       (case generateTransaction env wallet to (parseTrx trx_amount) ''TRX'' latestBlock of
          Inl e \<Rightarrow>
            (Inl (Thrown e),
             s2 @ [GenerateTransaction wallet to (parseTrx trx_amount) ''TRX'' latestBlock])
        | Inr t \<Rightarrow>
            broadcastTransaction env network t
              (s2 @ [GenerateTransaction wallet to (parseTrx trx_amount) ''TRX'' latestBlock])))"
  using assms
  by (simp add: sendTrx_def call_def await_def construct_def reject_def BigNumber_parseTrx
      Let_def split: sum.splits)

lemma sendTRC20Token_steps:
  assumes "fromTronPrivateKey env key = Inr wallet"
    and "getLatestBlock env network s = (Inr latestBlock, s1)"
    and "getTRC20Balance env (getAddress wallet) c decimals network s1 = (Inr b, s2)"
  shows "sendTRC20Token env to c trx_amount key decimals network s =
    (if BigNumber_gte (BigNumber (Number (js_mul trx_amount (Math_pow10 decimals))))
          (BigNumber (sun b))
     then (Inl (Error ''Insufficient balance''), s2)
     else
       (case transferTRC20Token env wallet c to
               (Number (js_mul trx_amount (Math_pow10 decimals))) latestBlock of
          Inl e \<Rightarrow>
            (Inl (Thrown e),
             s2 @ [TransferTRC20Token wallet c to
                     (Number (js_mul trx_amount (Math_pow10 decimals))) latestBlock])
        | Inr t \<Rightarrow>
            broadcastTransaction env network t
              (s2 @ [TransferTRC20Token wallet c to
                       (Number (js_mul trx_amount (Math_pow10 decimals))) latestBlock])))"
  using assms
  by (simp add: sendTRC20Token_def call_def await_def construct_def reject_def
      Let_def split: sum.splits)







text \<open>
  In general: a balance that \<open>new BigNumber\<close> reads as \<open>NaN\<close> (an absent one, or one
  that is not a number) is never found insufficient.
\<close>

lemma sendTrx_balance_not_a_number:
  assumes "fromTronPrivateKey env key = Inr wallet"
    and "getLatestBlock env network s = (Inr latestBlock, s1)"
    and "getTrxBalance env (getAddress wallet) network s1 = (Inr b, s2)"
    and "BigNumber (sun b) = NaN"
  shows "sendTrx env key to trx_amount network s =
       (case generateTransaction env wallet to (parseTrx trx_amount) ''TRX'' latestBlock of
          Inl e \<Rightarrow>
            (Inl (Thrown e),
             s2 @ [GenerateTransaction wallet to (parseTrx trx_amount) ''TRX'' latestBlock])
        | Inr t \<Rightarrow>
            broadcastTransaction env network t
              (s2 @ [GenerateTransaction wallet to (parseTrx trx_amount) ''TRX'' latestBlock]))"
  by (simp add: sendTrx_steps [OF assms(1-3)] assms(4) parseTrx_def)

text \<open>
  Conversely, a transfer that fails with \<open>Insufficient balance\<close> has reached the guard,
  and the guard has found the amount at or above the balance.
\<close>

lemma sendTrx_insufficient_only_guard:
  assumes f: "fst (sendTrx env key to trx_amount network s) = Inl (Error ''Insufficient balance'')"
  shows "\<exists>wallet latestBlock s1 b s2.
      fromTronPrivateKey env key = Inr wallet
    \<and> getLatestBlock env network s = (Inr latestBlock, s1)
    \<and> getTrxBalance env (getAddress wallet) network s1 = (Inr b, s2)
    \<and> BigNumber_gte (parseTrx trx_amount) (BigNumber (sun b))"
proof (cases "fromTronPrivateKey env key")
  case (Inl m)
  with f show ?thesis by (simp add: sendTrx_def call_def reject_def)
next
  case (Inr wallet)
  obtain r1 s1 where blk: "getLatestBlock env network s = (r1, s1)"
    by (cases "getLatestBlock env network s")
  show ?thesis
  proof (cases r1)
    case (Inl e1)
    with f Inr blk have "e1 = Error ''Insufficient balance''"
      by (simp add: sendTrx_def call_def await_def Let_def)
    moreover have "unguarded e1"
      using blk Inl getLatestBlock_unguarded [of env network s e1] by simp
    ultimately show ?thesis by (simp add: unguarded_def)
  next
    case latestBlock: (Inr latestBlock)
    obtain r2 s2 where bal: "getTrxBalance env (getAddress wallet) network s1 = (r2, s2)"
      by (cases "getTrxBalance env (getAddress wallet) network s1")
    show ?thesis
    proof (cases r2)
      case (Inl e2)
      with f Inr blk latestBlock bal have "e2 = Error ''Insufficient balance''"
        by (simp add: sendTrx_def call_def await_def Let_def)
      moreover have "unguarded e2"
        using bal Inl getTrxBalance_unguarded [of env "getAddress wallet" network s1 e2] by simp
      ultimately show ?thesis by (simp add: unguarded_def)
    next
      case b: (Inr b)
      note st = sendTrx_steps [OF Inr blk [unfolded latestBlock] bal [unfolded b],
          of to trx_amount]
      have "BigNumber_gte (parseTrx trx_amount) (BigNumber (sun b))"
      proof (rule ccontr)
        assume n: "\<not> BigNumber_gte (parseTrx trx_amount) (BigNumber (sun b))"
        show False
        proof (cases "generateTransaction env wallet to (parseTrx trx_amount) ''TRX'' latestBlock")
          case (Inl m)
          with f st n show False by simp
        next
          case (Inr t)
          with f st n have "unguarded (Error ''Insufficient balance'')"
            by (auto dest: broadcastTransaction_unguarded)
          then show False by (simp add: unguarded_def)
        qed
      qed
      with Inr blk latestBlock bal b show ?thesis by blast
    qed
  qed
qed

lemma sendTRC20Token_insufficient_only_guard:
  assumes f: "fst (sendTRC20Token env to c trx_amount key decimals network s)
      = Inl (Error ''Insufficient balance'')"
  shows "\<exists>wallet latestBlock s1 b s2.
      fromTronPrivateKey env key = Inr wallet
    \<and> getLatestBlock env network s = (Inr latestBlock, s1)
    \<and> getTRC20Balance env (getAddress wallet) c decimals network s1 = (Inr b, s2)
    \<and> BigNumber_gte (BigNumber (Number (js_mul trx_amount (Math_pow10 decimals))))
          (BigNumber (sun b))"
proof (cases "fromTronPrivateKey env key")
  case (Inl m)
  with f show ?thesis by (simp add: sendTRC20Token_def call_def reject_def)
next
  case (Inr wallet)
  obtain r1 s1 where blk: "getLatestBlock env network s = (r1, s1)"
    by (cases "getLatestBlock env network s")
  show ?thesis
  proof (cases r1)
    case (Inl e1)
    with f Inr blk have "e1 = Error ''Insufficient balance''"
      by (simp add: sendTRC20Token_def call_def await_def Let_def)
    moreover have "unguarded e1"
      using blk Inl getLatestBlock_unguarded [of env network s e1] by simp
    ultimately show ?thesis by (simp add: unguarded_def)
  next
    case latestBlock: (Inr latestBlock)
    obtain r2 s2 where bal:
      "getTRC20Balance env (getAddress wallet) c decimals network s1 = (r2, s2)"
      by (cases "getTRC20Balance env (getAddress wallet) c decimals network s1")
    show ?thesis
    proof (cases r2)
      case (Inl e2)
      with f Inr blk latestBlock bal have "e2 = Error ''Insufficient balance''"
        by (simp add: sendTRC20Token_def call_def await_def Let_def)
      moreover have "unguarded e2"
        using bal Inl
          getTRC20Balance_unguarded [of env "getAddress wallet" c decimals network s1 e2]
        by simp
      ultimately show ?thesis by (simp add: unguarded_def)
    next
      case b: (Inr b)
      note st = sendTRC20Token_steps [OF Inr blk [unfolded latestBlock] bal [unfolded b],
          of to trx_amount]
      have "BigNumber_gte (BigNumber (Number (js_mul trx_amount (Math_pow10 decimals))))
          (BigNumber (sun b))"
      proof (rule ccontr)
        assume n: "\<not> BigNumber_gte (BigNumber (Number (js_mul trx_amount (Math_pow10 decimals))))
          (BigNumber (sun b))"
        show False
        proof (cases "transferTRC20Token env wallet c to
            (Number (js_mul trx_amount (Math_pow10 decimals))) latestBlock")
          case (Inl m)
          with f st n show False by simp
        next
          case (Inr t)
          with f st n have "unguarded (Error ''Insufficient balance'')"
            by (auto dest: broadcastTransaction_unguarded)
          then show False by (simp add: unguarded_def)
        qed
      qed
      with Inr blk latestBlock bal b show ?thesis by blast
    qed
  qed
qed

text \<open>The events of \<open>sendTrx\<close>, and how its success ends.\<close>

lemma sendTrx_events:
  "\<exists>evs. snd (sendTrx env key to trx_amount network s) = s @ evs
     \<and> \<not> list_ex token_construction evs"
proof (cases "fromTronPrivateKey env key")
  case (Inl m)
  then show ?thesis by (simp add: sendTrx_def call_def reject_def)
next
  case (Inr wallet)
  obtain r1 s1 where blk: "getLatestBlock env network s = (r1, s1)"
    by (cases "getLatestBlock env network s")
  obtain evs1 where e1: "s1 = s @ evs1" "\<not> list_ex token_construction evs1"
    using getLatestBlock_events [of env network s] blk by auto
  show ?thesis
  proof (cases r1)
    case (Inl e)
    with Inr blk e1 show ?thesis by (simp add: sendTrx_def call_def await_def Let_def)
  next
    case latestBlock: (Inr latestBlock)
    obtain r2 s2 where bal: "getTrxBalance env (getAddress wallet) network s1 = (r2, s2)"
      by (cases "getTrxBalance env (getAddress wallet) network s1")
    obtain evs2 where e2: "s2 = s1 @ evs2" "\<not> list_ex token_construction evs2"
      using getTrxBalance_events [of env "getAddress wallet" network s1] bal by auto
    show ?thesis
    proof (cases r2)
      case (Inl e)
      with Inr blk latestBlock bal e1 e2 show ?thesis
        by (simp add: sendTrx_def call_def await_def Let_def)
    next
      case b: (Inr b)
      note st = sendTrx_steps [OF Inr blk [unfolded latestBlock] bal [unfolded b],
          of to trx_amount]
      let ?g = "GenerateTransaction wallet to (parseTrx trx_amount) ''TRX'' latestBlock"
      show ?thesis
      proof (cases "BigNumber_gte (parseTrx trx_amount) (BigNumber (sun b))")
        case True
        with st e1 e2 show ?thesis by simp
      next
        case False
        show ?thesis
        proof (cases "generateTransaction env wallet to (parseTrx trx_amount) ''TRX'' latestBlock")
          case (Inl m)
          with st False e1 e2 show ?thesis by (simp add: token_construction_def)
        next
          case t: (Inr t)
          obtain evs3 where e3: "snd (broadcastTransaction env network t (s2 @ [?g]))
              = (s2 @ [?g]) @ evs3" "\<not> list_ex token_construction evs3"
            using broadcastTransaction_events [of env network t "s2 @ [?g]"] by auto
          have "snd (sendTrx env key to trx_amount network s) = s @ (evs1 @ evs2 @ [?g] @ evs3)"
            using st False t e1 e2 e3 by simp
          moreover have "\<not> list_ex token_construction (evs1 @ evs2 @ [?g] @ evs3)"
            using e1 e2 e3 by (simp add: token_construction_def)
          ultimately show ?thesis by blast
        qed
      qed
    qed
  qed
qed

lemma sendTrx_resolved:
  assumes "sendTrx env key to trx_amount network s = (Inr r, s')"
  shows "\<exists>wallet latestBlock t pre.
           fromTronPrivateKey env key = Inr wallet
         \<and> s' = pre @ [GenerateTransaction wallet to (parseTrx trx_amount) ''TRX'' latestBlock,
                       broadcast_request env network t]"
proof (cases "fromTronPrivateKey env key")
  case (Inl m)
  with assms show ?thesis by (simp add: sendTrx_def call_def reject_def)
next
  case (Inr wallet)
  obtain r1 s1 where blk: "getLatestBlock env network s = (r1, s1)"
    by (cases "getLatestBlock env network s")
  show ?thesis
  proof (cases r1)
    case (Inl e)
    with Inr blk assms show ?thesis by (simp add: sendTrx_def call_def await_def Let_def)
  next
    case latestBlock: (Inr latestBlock)
    have key: "truthy (TRONGRID_API_KEY env)"
      using blk latestBlock by (auto dest: getLatestBlock_key)
    obtain r2 s2 where bal: "getTrxBalance env (getAddress wallet) network s1 = (r2, s2)"
      by (cases "getTrxBalance env (getAddress wallet) network s1")
    show ?thesis
    proof (cases r2)
      case (Inl e)
      with Inr blk latestBlock bal assms show ?thesis
        by (simp add: sendTrx_def call_def await_def Let_def)
    next
      case b: (Inr b)
      note st = sendTrx_steps [OF Inr blk [unfolded latestBlock] bal [unfolded b],
          of to trx_amount]
      show ?thesis
      proof (cases "generateTransaction env wallet to (parseTrx trx_amount) ''TRX'' latestBlock")
        case (Inl m)
        with st assms show ?thesis by (simp split: if_splits)
      next
        case t: (Inr t)
        with st assms Inr show ?thesis
          by (auto simp: broadcastTransaction_keyed [OF key] split: if_splits)
      qed
    qed
  qed
qed

lemma scenario_backer_sendTrx:
  assumes B: "\<bar>B\<bar> \<le> 2 ^ 53"
  shows "sendTrx (scenario_env (scenario_backed B) scenario_listing) ''backer'' ''Tsender'' (Fin 1)
     None s
   = (if 1000000 < B then
        (Inr [(''result'', JBool True)],
         s @ [scenario_request ''wallet/getnowblock'' ''get'' None,
              scenario_request ''v1/accounts/Tbacker'' ''get'' None,
              GenerateTransaction (scenario_wallet ''backer'') ''Tsender'' (Fin 1000000) ''TRX''
                scenario_block,
              scenario_request ''wallet/broadcasthex'' ''post''
                (Some [(''transaction'', ''0a01'')])])
      else
        (Inl (Error ''Insufficient balance''),
         s @ [scenario_request ''wallet/getnowblock'' ''get'' None,
              scenario_request ''v1/accounts/Tbacker'' ''get'' None]))"
proof -
  let ?E = "scenario_env (scenario_backed B) scenario_listing"
  have w: "fromTronPrivateKey ?E ''backer'' = Inr (scenario_wallet ''backer'')"
    by (rule scenario_fromTronPrivateKey)
  have blk: "getLatestBlock ?E None s
      = (Inr scenario_block, s @ [scenario_request ''wallet/getnowblock'' ''get'' None])"
    by (rule scenario_getLatestBlock)
  have bal: "getTrxBalance ?E (getAddress (scenario_wallet ''backer'')) None
        (s @ [scenario_request ''wallet/getnowblock'' ''get'' None])
      = (Inr \<lparr>sun = Number (Fin (of_int B)), trx = sunToTrx (Number (Fin (of_int B)))\<rparr>,
         (s @ [scenario_request ''wallet/getnowblock'' ''get'' None])
           @ [scenario_request (''v1/accounts/'' @ ''Tbacker'') ''get'' None])"
    using scenario_getTrxBalance [where accs = "scenario_backed B" and addr = "''Tbacker''"
        and acc = "\<lparr>balance = Number (Fin (of_int B)), trc20 = []\<rparr>"
        and lst = scenario_listing
        and s = "s @ [scenario_request ''wallet/getnowblock'' ''get'' None]"]
      scenario_backed_backer [of B]
    by (simp add: scenario_wallet_def)
  show ?thesis
    by (simp add: sendTrx_steps [OF w blk bal] String_value_of_int [OF B] parseTrx_1
        scenario_generateTransaction scenario_broadcastTransaction)
qed

section \<open>Drains\<close>

text \<open>What \<open>drainTrx\<close> does once the balance is fetched, whatever the balance is.\<close>

lemma drainTrx_steps_any:
  assumes "fromTronPrivateKey env key = Inr wallet"
    and "getLatestBlock env network s = (Inr latestBlock, s1)"
    and "getTrxBalance env (getAddress wallet) network s1 = (Inr b, s2)"
    and "BigNumber_minus (BigNumber (sun b)) (Fin 1000000) = amount"
  shows "drainTrx env key to network s =
    (case generateTransaction env wallet to amount ''TRX'' latestBlock of
       Inl e \<Rightarrow>
         (Inl (Thrown e), s2 @ [GenerateTransaction wallet to amount ''TRX'' latestBlock])
     | Inr t \<Rightarrow>
         (case broadcastTransaction env network t
                 (s2 @ [GenerateTransaction wallet to amount ''TRX'' latestBlock]) of
            (Inl e, s3) \<Rightarrow> (Inl e, s3)
          | (Inr receipt, s3) \<Rightarrow> (Inr (with_amount receipt (Number amount)), s3)))"
  using assms
  by (simp add: drainTrx_def call_def await_def construct_def reject_def resolve_def
      BigNumber_pow10_6 Let_def split: sum.splits prod.splits)

lemma drainTrx_steps:
  assumes "fromTronPrivateKey env key = Inr wallet"
    and "getLatestBlock env network s = (Inr latestBlock, s1)"
    and "getTrxBalance env (getAddress wallet) network s1 = (Inr b, s2)"
    and "BigNumber (sun b) = Fin x"
  shows "drainTrx env key to network s =
    (case generateTransaction env wallet to (Fin (x - 1000000)) ''TRX'' latestBlock of
       Inl e \<Rightarrow>
         (Inl (Thrown e),
          s2 @ [GenerateTransaction wallet to (Fin (x - 1000000)) ''TRX'' latestBlock])
     | Inr t \<Rightarrow>
         (case broadcastTransaction env network t
                 (s2 @ [GenerateTransaction wallet to (Fin (x - 1000000)) ''TRX'' latestBlock]) of
            (Inl e, s3) \<Rightarrow> (Inl e, s3)
          | (Inr receipt, s3) \<Rightarrow>
              (Inr (with_amount receipt (Number (Fin (x - 1000000)))), s3)))"
  by (rule drainTrx_steps_any [OF assms(1-3)]) (simp add: assms(4))

text \<open>
  Claim C4. \<open>drainTrx\<close> computes the balance less \<open>10 ^ 6\<close>, has the transaction
  constructed for that amount and broadcasts it; the receipt it returns is the answer to
  the broadcast with \<open>amount\<close> set to that value. The balance \<open>x\<close> is the fetched one
  as \<open>new BigNumber\<close> reads it, which is the fetched balance itself when that is an
  integer of at most 53 bits (\<open>BigNumber_of_int\<close>).
\<close>

theorem drainTrx_amount:
  "fromTronPrivateKey env key = Inr wallet \<Longrightarrow>
   getLatestBlock env network s = (Inr latestBlock, s1) \<Longrightarrow>
   getTrxBalance env (getAddress wallet) network s1 = (Inr b, s2) \<Longrightarrow>
   BigNumber (sun b) = Fin x \<Longrightarrow>
   generateTransaction env wallet to (Fin (x - 1000000)) ''TRX'' latestBlock = Inr t \<Longrightarrow>
   broadcastTransaction env network t
     (s2 @ [GenerateTransaction wallet to (Fin (x - 1000000)) ''TRX'' latestBlock])
     = (Inr receipt, s3) \<Longrightarrow>
   drainTrx env key to network s = (Inr (with_amount receipt (Number (Fin (x - 1000000)))), s3)
   \<and> s3 = s2 @ [GenerateTransaction wallet to (Fin (x - 1000000)) ''TRX'' latestBlock,
                broadcast_request env network t]
   \<and> map_of (with_amount receipt (Number (Fin (x - 1000000))))
       = (map_of receipt)(''amount'' \<mapsto> JNumber (Fin (x - 1000000)))"
proof -
  assume w: "fromTronPrivateKey env key = Inr wallet"
    and blk: "getLatestBlock env network s = (Inr latestBlock, s1)"
    and bal: "getTrxBalance env (getAddress wallet) network s1 = (Inr b, s2)"
    and x: "BigNumber (sun b) = Fin x"
    and t: "generateTransaction env wallet to (Fin (x - 1000000)) ''TRX'' latestBlock = Inr t"
    and r: "broadcastTransaction env network t
      (s2 @ [GenerateTransaction wallet to (Fin (x - 1000000)) ''TRX'' latestBlock])
      = (Inr receipt, s3)"
  have key: "truthy (TRONGRID_API_KEY env)" using blk by (rule getLatestBlock_key)
  have 1: "drainTrx env key to network s
      = (Inr (with_amount receipt (Number (Fin (x - 1000000)))), s3)"
    by (simp add: drainTrx_steps [OF w blk bal x] t r)
  have 2: "s3 = s2 @ [GenerateTransaction wallet to (Fin (x - 1000000)) ''TRX'' latestBlock,
                broadcast_request env network t]"
    using r by (simp add: broadcastTransaction_keyed [OF key])
  have 3: "map_of (with_amount receipt (Number (Fin (x - 1000000))))
       = (map_of receipt)(''amount'' \<mapsto> JNumber (Fin (x - 1000000)))"
    by (simp add: with_amount_def update_conv')
  from 1 2 3 show ?thesis by blast
qed

text \<open>A balance of 2000000 gives the amount 1000000.\<close>

theorem drainTrx_amount_witness:
  "fromTronPrivateKey (scenario_env (scenario_account 2000000) scenario_listing) ''sender''
     = Inr (scenario_wallet ''sender'')
   \<and> getLatestBlock (scenario_env (scenario_account 2000000) scenario_listing) None []
     = (Inr scenario_block, [scenario_request ''wallet/getnowblock'' ''get'' None])
   \<and> getTrxBalance (scenario_env (scenario_account 2000000) scenario_listing)
       (getAddress (scenario_wallet ''sender'')) None
       [scenario_request ''wallet/getnowblock'' ''get'' None]
     = (Inr \<lparr>sun = Number (Fin 2000000), trx = Fin 2\<rparr>,
        [scenario_request ''wallet/getnowblock'' ''get'' None,
         scenario_request ''v1/accounts/Tsender'' ''get'' None])
   \<and> BigNumber (Number (Fin 2000000)) = Fin 2000000
   \<and> generateTransaction (scenario_env (scenario_account 2000000) scenario_listing)
       (scenario_wallet ''sender'') ''Tdest'' (Fin (2000000 - 1000000)) ''TRX'' scenario_block
     = Inr \<lparr>hex = ''0a01''\<rparr>
   \<and> drainTrx (scenario_env (scenario_account 2000000) scenario_listing) ''sender'' ''Tdest''
       None []
     = (Inr [(''result'', JBool True), (''amount'', JNumber (Fin 1000000))],
        [scenario_request ''wallet/getnowblock'' ''get'' None,
         scenario_request ''v1/accounts/Tsender'' ''get'' None,
         GenerateTransaction (scenario_wallet ''sender'') ''Tdest'' (Fin 1000000) ''TRX''
           scenario_block,
         scenario_request ''wallet/broadcasthex'' ''post'' (Some [(''transaction'', ''0a01'')])])"
proof -
  let ?E = "scenario_env (scenario_account 2000000) scenario_listing"
  let ?s1 = "[scenario_request ''wallet/getnowblock'' ''get'' None]"
  let ?s2 = "[scenario_request ''wallet/getnowblock'' ''get'' None,
              scenario_request ''v1/accounts/Tsender'' ''get'' None]"
  have w: "fromTronPrivateKey ?E ''sender'' = Inr (scenario_wallet ''sender'')"
    by (rule scenario_fromTronPrivateKey)
  have blk: "getLatestBlock ?E None [] = (Inr scenario_block, ?s1)"
    using scenario_getLatestBlock [of "scenario_account 2000000" scenario_listing "[]"] by simp
  have bal: "getTrxBalance ?E (getAddress (scenario_wallet ''sender'')) None ?s1
      = (Inr \<lparr>sun = Number (Fin 2000000), trx = Fin 2\<rparr>, ?s2)"
    using scenario_getTrxBalance [of "scenario_account 2000000" "''Tsender''"
        "\<lparr>balance = Number (Fin 2000000), trc20 = [[(''TContract'', ''5000000'')]]\<rparr>"
        scenario_listing ?s1]
    by (simp add: scenario_account_def scenario_wallet_def sunToTrx_2000000)
  have x: "BigNumber (sun \<lparr>sun = Number (Fin 2000000), trx = Fin 2\<rparr>) = Fin 2000000" by simp
  have t: "generateTransaction ?E (scenario_wallet ''sender'') ''Tdest'' (Fin (2000000 - 1000000))
      ''TRX'' scenario_block = Inr \<lparr>hex = ''0a01''\<rparr>"
    by (rule scenario_generateTransaction)
  have r: "broadcastTransaction ?E None \<lparr>hex = ''0a01''\<rparr>
      (?s2 @ [GenerateTransaction (scenario_wallet ''sender'') ''Tdest'' (Fin (2000000 - 1000000))
                ''TRX'' scenario_block])
      = (Inr [(''result'', JBool True)],
         (?s2 @ [GenerateTransaction (scenario_wallet ''sender'') ''Tdest''
                   (Fin (2000000 - 1000000)) ''TRX'' scenario_block])
         @ [scenario_request ''wallet/broadcasthex'' ''post'' (Some [(''transaction'', ''0a01'')])])"
    using scenario_broadcastTransaction by simp
  from drainTrx_amount [OF w blk bal x t r] w blk bal t
  show ?thesis by (simp add: with_amount_def)
qed

lemma drainTrx_unguarded:
  assumes f: "fst (drainTrx env key to network s) = Inl e"
  shows "unguarded e"
proof (cases "fromTronPrivateKey env key")
  case (Inl m)
  with f show ?thesis by (auto simp: drainTrx_def call_def reject_def unguarded_def)
next
  case (Inr wallet)
  obtain r1 s1 where blk: "getLatestBlock env network s = (r1, s1)"
    by (cases "getLatestBlock env network s")
  show ?thesis
  proof (cases r1)
    case (Inl e1)
    with f Inr blk have "e = e1" by (simp add: drainTrx_def call_def await_def Let_def)
    with blk Inl show ?thesis using getLatestBlock_unguarded [of env network s e1] by simp
  next
    case latestBlock: (Inr latestBlock)
    obtain r2 s2 where bal: "getTrxBalance env (getAddress wallet) network s1 = (r2, s2)"
      by (cases "getTrxBalance env (getAddress wallet) network s1")
    show ?thesis
    proof (cases r2)
      case (Inl e2)
      with f Inr blk latestBlock bal have "e = e2"
        by (simp add: drainTrx_def call_def await_def Let_def)
      with bal Inl show ?thesis
        using getTrxBalance_unguarded [of env "getAddress wallet" network s1 e2] by simp
    next
      case b: (Inr b)
      define amount where "amount = BigNumber_minus (BigNumber (sun b)) (Fin 1000000)"
      note st = drainTrx_steps_any [OF Inr blk [unfolded latestBlock] bal [unfolded b]
          amount_def [symmetric], of to]
      show ?thesis
      proof (cases "generateTransaction env wallet to amount ''TRX'' latestBlock")
        case (Inl m)
        with f st show ?thesis by (auto simp: unguarded_def)
      next
        case t: (Inr t)
        obtain r3 s3 where br: "broadcastTransaction env network t
            (s2 @ [GenerateTransaction wallet to amount ''TRX'' latestBlock])
            = (r3, s3)"
          by (cases "broadcastTransaction env network t
            (s2 @ [GenerateTransaction wallet to amount ''TRX'' latestBlock])")
        show ?thesis
        proof (cases r3)
          case (Inl e3)
          with f st t br have "e = e3" by simp
          moreover have "fst (broadcastTransaction env network t
              (s2 @ [GenerateTransaction wallet to amount ''TRX'' latestBlock]))
              = Inl e3"
            using br Inl by simp
          ultimately show ?thesis by (auto dest: broadcastTransaction_unguarded)
        next
          case (Inr receipt)
          with f st t br show ?thesis by simp
        qed
      qed
    qed
  qed
qed

text \<open>
  Claim C6. \<open>drainTrx\<close> never fails with \<open>Insufficient balance\<close>; whatever the
  balance \<open>x\<close>, it has a transaction constructed for \<open>x - 10 ^ 6\<close> and, when the
  library returns one, broadcasts it. The balance \<open>x\<close> is the fetched one as
  \<open>new BigNumber\<close> reads it, as in claim C4.
\<close>

theorem drainTrx_no_guard:
  "fst (drainTrx env key to network s) \<noteq> Inl (Error ''Insufficient balance'')
   \<and> (fromTronPrivateKey env key = Inr wallet
      \<and> getLatestBlock env network s = (Inr latestBlock, s1)
      \<and> getTrxBalance env (getAddress wallet) network s1 = (Inr b, s2)
      \<and> BigNumber (sun b) = Fin x \<longrightarrow>
      snd (drainTrx env key to network s) =
        s2 @ GenerateTransaction wallet to (Fin (x - 1000000)) ''TRX'' latestBlock
           # (case generateTransaction env wallet to (Fin (x - 1000000)) ''TRX'' latestBlock of
                Inl e \<Rightarrow> []
              | Inr t \<Rightarrow> [broadcast_request env network t]))"
proof (intro conjI impI)
  show "fst (drainTrx env key to network s) \<noteq> Inl (Error ''Insufficient balance'')"
    using drainTrx_unguarded [of env key to network s "Error ''Insufficient balance''"]
    by (auto simp: unguarded_def)
next
  assume h: "fromTronPrivateKey env key = Inr wallet
      \<and> getLatestBlock env network s = (Inr latestBlock, s1)
      \<and> getTrxBalance env (getAddress wallet) network s1 = (Inr b, s2)
      \<and> BigNumber (sun b) = Fin x"
  then have key: "truthy (TRONGRID_API_KEY env)" by (auto dest: getLatestBlock_key)
  from h have st: "drainTrx env key to network s =
    (case generateTransaction env wallet to (Fin (x - 1000000)) ''TRX'' latestBlock of
       Inl e \<Rightarrow>
         (Inl (Thrown e),
          s2 @ [GenerateTransaction wallet to (Fin (x - 1000000)) ''TRX'' latestBlock])
     | Inr t \<Rightarrow>
         (case broadcastTransaction env network t
                 (s2 @ [GenerateTransaction wallet to (Fin (x - 1000000)) ''TRX'' latestBlock]) of
            (Inl e, s3) \<Rightarrow> (Inl e, s3)
          | (Inr receipt, s3) \<Rightarrow>
              (Inr (with_amount receipt (Number (Fin (x - 1000000)))), s3)))"
    using drainTrx_steps [of env key wallet network s latestBlock s1 b s2 x to] by blast
  show "snd (drainTrx env key to network s) =
        s2 @ GenerateTransaction wallet to (Fin (x - 1000000)) ''TRX'' latestBlock
           # (case generateTransaction env wallet to (Fin (x - 1000000)) ''TRX'' latestBlock of
                Inl e \<Rightarrow> []
              | Inr t \<Rightarrow> [broadcast_request env network t])"
    unfolding st
    by (simp add: broadcastTransaction_keyed [OF key] split: sum.splits)
qed

text \<open>A balance of 500000 gives the amount \<open>- 500000\<close>, constructed and broadcast.\<close>

theorem drainTrx_no_guard_witness:
  "fromTronPrivateKey (scenario_env (scenario_account 500000) scenario_listing) ''sender''
     = Inr (scenario_wallet ''sender'')
   \<and> getLatestBlock (scenario_env (scenario_account 500000) scenario_listing) None []
     = (Inr scenario_block, [scenario_request ''wallet/getnowblock'' ''get'' None])
   \<and> getTrxBalance (scenario_env (scenario_account 500000) scenario_listing)
       (getAddress (scenario_wallet ''sender'')) None
       [scenario_request ''wallet/getnowblock'' ''get'' None]
     = (Inr \<lparr>sun = Number (Fin 500000), trx = Fin (1 / 2)\<rparr>,
        [scenario_request ''wallet/getnowblock'' ''get'' None,
         scenario_request ''v1/accounts/Tsender'' ''get'' None])
   \<and> BigNumber (Number (Fin 500000)) = Fin 500000
   \<and> fst (drainTrx (scenario_env (scenario_account 500000) scenario_listing) ''sender'' ''Tdest''
            None [])
     \<noteq> Inl (Error ''Insufficient balance'')
   \<and> snd (drainTrx (scenario_env (scenario_account 500000) scenario_listing) ''sender'' ''Tdest''
            None [])
     = [scenario_request ''wallet/getnowblock'' ''get'' None,
        scenario_request ''v1/accounts/Tsender'' ''get'' None,
        GenerateTransaction (scenario_wallet ''sender'') ''Tdest'' (Fin (- 500000)) ''TRX''
          scenario_block,
        scenario_request ''wallet/broadcasthex'' ''post'' (Some [(''transaction'', ''0a01'')])]"
proof -
  let ?E = "scenario_env (scenario_account 500000) scenario_listing"
  let ?s1 = "[scenario_request ''wallet/getnowblock'' ''get'' None]"
  let ?s2 = "[scenario_request ''wallet/getnowblock'' ''get'' None,
              scenario_request ''v1/accounts/Tsender'' ''get'' None]"
  have w: "fromTronPrivateKey ?E ''sender'' = Inr (scenario_wallet ''sender'')"
    by (rule scenario_fromTronPrivateKey)
  have blk: "getLatestBlock ?E None [] = (Inr scenario_block, ?s1)"
    using scenario_getLatestBlock [of "scenario_account 500000" scenario_listing "[]"] by simp
  have bal: "getTrxBalance ?E (getAddress (scenario_wallet ''sender'')) None ?s1
      = (Inr \<lparr>sun = Number (Fin 500000), trx = Fin (1 / 2)\<rparr>, ?s2)"
    using scenario_getTrxBalance [of "scenario_account 500000" "''Tsender''"
        "\<lparr>balance = Number (Fin 500000), trc20 = [[(''TContract'', ''5000000'')]]\<rparr>"
        scenario_listing ?s1]
    by (simp add: scenario_account_def scenario_wallet_def sunToTrx_500000)
  from drainTrx_no_guard [of ?E "''sender''" "''Tdest''" None "[]" "scenario_wallet ''sender''"
      scenario_block ?s1 "\<lparr>sun = Number (Fin 500000), trx = Fin (1 / 2)\<rparr>" ?s2 500000]
    w blk bal
  show ?thesis
    by (simp add: scenario_generateTransaction scenario_broadcast_request)
qed

lemma drainTRC20Token_steps:
  assumes w: "fromTronPrivateKey env key = Inr wallet"
    and blk: "getLatestBlock env network s = (Inr latestBlock, s1)"
    and bal: "getTRC20Balance env (getAddress wallet) c decimals network s1 = (Inr b, s2)"
  shows "truthy backer \<Longrightarrow>
      sendTrx env (default_to [] backer) (getAddress wallet) (Fin 1) network s2 = (Inl e, s3) \<Longrightarrow>
      drainTRC20Token env to c key decimals network backer s = (Inl e, s3)"
    and "truthy backer \<Longrightarrow>
      sendTrx env (default_to [] backer) (getAddress wallet) (Fin 1) network s2 = (Inr r, s3) \<Longrightarrow>
      snd (drainTRC20Token env to c key decimals network backer s) =
        s3 @ TransferTRC20Token wallet c to (sun b) latestBlock
           # (case transferTRC20Token env wallet c to (sun b) latestBlock of
                Inl e \<Rightarrow> []
              | Inr t \<Rightarrow> [broadcast_request env network t])"
    and "\<not> truthy backer \<Longrightarrow>
      snd (drainTRC20Token env to c key decimals network backer s) =
        s2 @ TransferTRC20Token wallet c to (sun b) latestBlock
           # (case transferTRC20Token env wallet c to (sun b) latestBlock of
                Inl e \<Rightarrow> []
              | Inr t \<Rightarrow> [broadcast_request env network t])"
proof -
  have key: "truthy (TRONGRID_API_KEY env)" using blk by (rule getLatestBlock_key)
  have imp: "importTrxAddress env key
      = Inr \<lparr>address = getAddress wallet, privateKey = getTronPrivateKey wallet\<rparr>"
    by (simp add: importTrxAddress_def w)
  show "truthy backer \<Longrightarrow>
      sendTrx env (default_to [] backer) (getAddress wallet) (Fin 1) network s2 = (Inl e, s3) \<Longrightarrow>
      drainTRC20Token env to c key decimals network backer s = (Inl e, s3)"
    by (simp add: drainTRC20Token_def call_def await_def Let_def w blk bal imp)
  show "truthy backer \<Longrightarrow>
      sendTrx env (default_to [] backer) (getAddress wallet) (Fin 1) network s2 = (Inr r, s3) \<Longrightarrow>
      snd (drainTRC20Token env to c key decimals network backer s) =
        s3 @ TransferTRC20Token wallet c to (sun b) latestBlock
           # (case transferTRC20Token env wallet c to (sun b) latestBlock of
                Inl e \<Rightarrow> []
              | Inr t \<Rightarrow> [broadcast_request env network t])"
    by (simp add: drainTRC20Token_def call_def await_def construct_def reject_def resolve_def
        Let_def w blk bal imp broadcastTransaction_keyed [OF key]
        split: sum.splits)
  show "\<not> truthy backer \<Longrightarrow>
      snd (drainTRC20Token env to c key decimals network backer s) =
        s2 @ TransferTRC20Token wallet c to (sun b) latestBlock
           # (case transferTRC20Token env wallet c to (sun b) latestBlock of
                Inl e \<Rightarrow> []
              | Inr t \<Rightarrow> [broadcast_request env network t])"
    by (simp add: drainTRC20Token_def call_def await_def construct_def reject_def resolve_def
        Let_def w blk bal broadcastTransaction_keyed [OF key]
        split: sum.splits)
qed

lemma native_free_prefix:
  assumes "fromTronPrivateKey env key = Inr wallet"
    and blk: "getLatestBlock env network s = (Inr latestBlock, s1)"
    and bal: "getTRC20Balance env (getAddress wallet) c decimals network s1 = (Inr b, s2)"
  shows "\<exists>evs. s2 = s @ evs \<and> \<not> list_ex token_construction evs
           \<and> \<not> list_ex native_construction evs"
proof -
  obtain evs1 where e1: "s1 = s @ evs1" "\<not> list_ex token_construction evs1"
      "\<not> list_ex native_construction evs1"
    using getLatestBlock_events [of env network s] blk by auto
  obtain evs2 where e2: "s2 = s1 @ evs2" "\<not> list_ex token_construction evs2"
      "\<not> list_ex native_construction evs2"
    using getTRC20Balance_events [of env "getAddress wallet" c decimals network s1] bal by auto
  from e1 e2 have "s2 = s @ (evs1 @ evs2)" "\<not> list_ex token_construction (evs1 @ evs2)"
      "\<not> list_ex native_construction (evs1 @ evs2)"
    by simp_all
  then show ?thesis by blast
qed

text \<open>
  Claim C5, as amended. With a backer key that is neither absent nor empty,
  \<open>drainTRC20Token\<close> first runs \<open>sendTrx\<close> of one coin (\<open>10 ^ 6\<close> base units) from
  the backer to the sender. When that fails the drain fails with the same failure, where
  it stopped, and no token transfer is constructed. When it succeeds, its construction
  and broadcast come before the construction of the token transfer. With no backer key,
  or an empty one, the token transfer is constructed at once and no native transfer is.
\<close>

theorem backer_transfer_precedes_drain:
  "fromTronPrivateKey env key = Inr wallet \<Longrightarrow>
   getLatestBlock env network s = (Inr latestBlock, s1) \<Longrightarrow>
   getTRC20Balance env (getAddress wallet) c decimals network s1 = (Inr b, s2) \<Longrightarrow>
   (backer = Some k \<and> k \<noteq> []
      \<and> sendTrx env k (getAddress wallet) (Fin 1) network s2 = (Inl e, s3) \<longrightarrow>
    drainTRC20Token env to c key decimals network backer s = (Inl e, s3)
    \<and> \<not> list_ex token_construction (drop (length s) s3))
   \<and> (backer = Some k \<and> k \<noteq> []
      \<and> sendTrx env k (getAddress wallet) (Fin 1) network s2 = (Inr r, s3') \<longrightarrow>
    (\<exists>backer_wallet block t pre.
        fromTronPrivateKey env k = Inr backer_wallet
      \<and> s3' = pre @ [GenerateTransaction backer_wallet (getAddress wallet) (Fin 1000000) ''TRX''
                        block,
                      broadcast_request env network t])
    \<and> snd (drainTRC20Token env to c key decimals network backer s) =
        s3' @ TransferTRC20Token wallet c to (sun b) latestBlock
            # (case transferTRC20Token env wallet c to (sun b) latestBlock of
                 Inl e \<Rightarrow> []
               | Inr t \<Rightarrow> [broadcast_request env network t]))
   \<and> (backer = None \<or> backer = Some [] \<longrightarrow>
    snd (drainTRC20Token env to c key decimals network backer s) =
        s2 @ TransferTRC20Token wallet c to (sun b) latestBlock
           # (case transferTRC20Token env wallet c to (sun b) latestBlock of
                Inl e \<Rightarrow> []
              | Inr t \<Rightarrow> [broadcast_request env network t])
    \<and> \<not> list_ex native_construction
          (drop (length s) (snd (drainTRC20Token env to c key decimals network backer s))))"
proof (intro conjI impI)
  assume w: "fromTronPrivateKey env key = Inr wallet"
    and blk: "getLatestBlock env network s = (Inr latestBlock, s1)"
    and bal: "getTRC20Balance env (getAddress wallet) c decimals network s1 = (Inr b, s2)"
  note st = drainTRC20Token_steps [OF w blk bal]
  obtain evs where pre: "s2 = s @ evs" "\<not> list_ex token_construction evs"
      "\<not> list_ex native_construction evs"
    using native_free_prefix [OF w blk bal] by blast
  {
    assume h: "backer = Some k \<and> k \<noteq> []
      \<and> sendTrx env k (getAddress wallet) (Fin 1) network s2 = (Inl e, s3)"
    then have tb: "truthy backer" "default_to [] backer = k" by (simp_all add: truthy_def)
    from st(1) [OF tb(1), of e s3 to] h tb
    show "drainTRC20Token env to c key decimals network backer s = (Inl e, s3)" by simp
    obtain evs' where "s3 = s2 @ evs'" "\<not> list_ex token_construction evs'"
      using sendTrx_events [of env k "getAddress wallet" "Fin 1" network s2] h by auto
    with pre show "\<not> list_ex token_construction (drop (length s) s3)" by simp
  }
  {
    assume h: "backer = Some k \<and> k \<noteq> []
      \<and> sendTrx env k (getAddress wallet) (Fin 1) network s2 = (Inr r, s3')"
    then have tb: "truthy backer" "default_to [] backer = k" by (simp_all add: truthy_def)
    from h have "sendTrx env k (getAddress wallet) (Fin 1) network s2 = (Inr r, s3')" by simp
    from sendTrx_resolved [OF this]
    show "\<exists>backer_wallet block t pre.
        fromTronPrivateKey env k = Inr backer_wallet
      \<and> s3' = pre @ [GenerateTransaction backer_wallet (getAddress wallet) (Fin 1000000) ''TRX''
                        block,
                      broadcast_request env network t]"
      by (simp add: parseTrx_1)
    from st(2) [OF tb(1), of r s3' to] h tb
    show "snd (drainTRC20Token env to c key decimals network backer s) =
        s3' @ TransferTRC20Token wallet c to (sun b) latestBlock
            # (case transferTRC20Token env wallet c to (sun b) latestBlock of
                 Inl e \<Rightarrow> []
               | Inr t \<Rightarrow> [broadcast_request env network t])"
      by simp
  }
  {
    assume h: "backer = None \<or> backer = Some []"
    then have tb: "\<not> truthy backer" by (auto simp: truthy_def)
    from st(3) [OF tb, of to]
    show 1: "snd (drainTRC20Token env to c key decimals network backer s) =
        s2 @ TransferTRC20Token wallet c to (sun b) latestBlock
           # (case transferTRC20Token env wallet c to (sun b) latestBlock of
                Inl e \<Rightarrow> []
              | Inr t \<Rightarrow> [broadcast_request env network t])" .
    show "\<not> list_ex native_construction
          (drop (length s) (snd (drainTRC20Token env to c key decimals network backer s)))"
      unfolding 1 using pre
      by (simp add: native_construction_def broadcast_request_def split: sum.splits)
  }
qed

text \<open>
  A backer with exactly one coin cannot pay it and the drain stops; a backer with five
  coins pays, and the token transfer follows; with no backer only the token transfer is
  made.
\<close>

theorem backer_transfer_precedes_drain_witness:
  "fromTronPrivateKey (scenario_env (scenario_backed 1000000) scenario_listing) ''sender''
     = Inr (scenario_wallet ''sender'')
   \<and> getLatestBlock (scenario_env (scenario_backed 1000000) scenario_listing) None []
     = (Inr scenario_block, [scenario_request ''wallet/getnowblock'' ''get'' None])
   \<and> getTRC20Balance (scenario_env (scenario_backed 1000000) scenario_listing)
       (getAddress (scenario_wallet ''sender'')) ''TContract'' 6 None
       [scenario_request ''wallet/getnowblock'' ''get'' None]
     = (Inr \<lparr>sun = Number (Fin 5000000), trx = Fin 5\<rparr>,
        [scenario_request ''wallet/getnowblock'' ''get'' None,
         scenario_request ''v1/accounts/Tsender'' ''get'' None])
   \<and> sendTrx (scenario_env (scenario_backed 1000000) scenario_listing) ''backer''
       (getAddress (scenario_wallet ''sender'')) (Fin 1) None
       [scenario_request ''wallet/getnowblock'' ''get'' None,
        scenario_request ''v1/accounts/Tsender'' ''get'' None]
     = (Inl (Error ''Insufficient balance''),
        [scenario_request ''wallet/getnowblock'' ''get'' None,
         scenario_request ''v1/accounts/Tsender'' ''get'' None,
         scenario_request ''wallet/getnowblock'' ''get'' None,
         scenario_request ''v1/accounts/Tbacker'' ''get'' None])
   \<and> drainTRC20Token (scenario_env (scenario_backed 1000000) scenario_listing) ''Tdest''
       ''TContract'' ''sender'' 6 None (Some ''backer'') []
     = (Inl (Error ''Insufficient balance''),
        [scenario_request ''wallet/getnowblock'' ''get'' None,
         scenario_request ''v1/accounts/Tsender'' ''get'' None,
         scenario_request ''wallet/getnowblock'' ''get'' None,
         scenario_request ''v1/accounts/Tbacker'' ''get'' None])
   \<and> sendTrx (scenario_env (scenario_backed 5000000) scenario_listing) ''backer''
       (getAddress (scenario_wallet ''sender'')) (Fin 1) None
       [scenario_request ''wallet/getnowblock'' ''get'' None,
        scenario_request ''v1/accounts/Tsender'' ''get'' None]
     = (Inr [(''result'', JBool True)],
        [scenario_request ''wallet/getnowblock'' ''get'' None,
         scenario_request ''v1/accounts/Tsender'' ''get'' None,
         scenario_request ''wallet/getnowblock'' ''get'' None,
         scenario_request ''v1/accounts/Tbacker'' ''get'' None,
         GenerateTransaction (scenario_wallet ''backer'') ''Tsender'' (Fin 1000000) ''TRX''
           scenario_block,
         scenario_request ''wallet/broadcasthex'' ''post'' (Some [(''transaction'', ''0a01'')])])
   \<and> snd (drainTRC20Token (scenario_env (scenario_backed 5000000) scenario_listing) ''Tdest''
       ''TContract'' ''sender'' 6 None (Some ''backer'') [])
     = [scenario_request ''wallet/getnowblock'' ''get'' None,
        scenario_request ''v1/accounts/Tsender'' ''get'' None,
        scenario_request ''wallet/getnowblock'' ''get'' None,
        scenario_request ''v1/accounts/Tbacker'' ''get'' None,
        GenerateTransaction (scenario_wallet ''backer'') ''Tsender'' (Fin 1000000) ''TRX''
          scenario_block,
        scenario_request ''wallet/broadcasthex'' ''post'' (Some [(''transaction'', ''0a01'')]),
        TransferTRC20Token (scenario_wallet ''sender'') ''TContract'' ''Tdest''
          (Number (Fin 5000000)) scenario_block,
        scenario_request ''wallet/broadcasthex'' ''post'' (Some [(''transaction'', ''0a02'')])]
   \<and> snd (drainTRC20Token (scenario_env (scenario_backed 5000000) scenario_listing) ''Tdest''
       ''TContract'' ''sender'' 6 None None [])
     = [scenario_request ''wallet/getnowblock'' ''get'' None,
        scenario_request ''v1/accounts/Tsender'' ''get'' None,
        TransferTRC20Token (scenario_wallet ''sender'') ''TContract'' ''Tdest''
          (Number (Fin 5000000)) scenario_block,
        scenario_request ''wallet/broadcasthex'' ''post'' (Some [(''transaction'', ''0a02'')])]"
proof -
  let ?s1 = "[scenario_request ''wallet/getnowblock'' ''get'' None]"
  let ?s2 = "[scenario_request ''wallet/getnowblock'' ''get'' None,
              scenario_request ''v1/accounts/Tsender'' ''get'' None]"
  have w: "fromTronPrivateKey (scenario_env (scenario_backed B) scenario_listing) ''sender''
      = Inr (scenario_wallet ''sender'')" for B
    by (rule scenario_fromTronPrivateKey)
  have blk: "getLatestBlock (scenario_env (scenario_backed B) scenario_listing) None []
      = (Inr scenario_block, ?s1)" for B
    using scenario_getLatestBlock [of "scenario_backed B" scenario_listing "[]"] by simp
  have bal: "getTRC20Balance (scenario_env (scenario_backed B) scenario_listing)
        (getAddress (scenario_wallet ''sender'')) ''TContract'' 6 None ?s1
      = (Inr \<lparr>sun = Number (Fin 5000000), trx = Fin 5\<rparr>, ?s2)" for B
    using scenario_backed_token_balance [of B ?s1] by (simp add: scenario_wallet_def)
  have ad: "getAddress (scenario_wallet ''sender'') = ''Tsender''"
    by (simp add: scenario_wallet_def)
  note t1 = backer_transfer_precedes_drain [OF w [of 1000000] blk [of 1000000] bal [of 1000000],
      where backer = "Some ''backer''" and k = "''backer''"
      and e = "Error ''Insufficient balance''" and to = "''Tdest''"
      and ?s3.0 = "?s2 @ [scenario_request ''wallet/getnowblock'' ''get'' None,
              scenario_request ''v1/accounts/Tbacker'' ''get'' None]"]
  note t2 = backer_transfer_precedes_drain [OF w [of 5000000] blk [of 5000000] bal [of 5000000],
      where backer = "Some ''backer''" and k = "''backer''" and to = "''Tdest''"
      and r = "[(''result'', JBool True)]"
      and s3' = "?s2 @ [scenario_request ''wallet/getnowblock'' ''get'' None,
              scenario_request ''v1/accounts/Tbacker'' ''get'' None,
              GenerateTransaction (scenario_wallet ''backer'') ''Tsender'' (Fin 1000000) ''TRX''
                scenario_block,
              scenario_request ''wallet/broadcasthex'' ''post''
                (Some [(''transaction'', ''0a01'')])]"]
  note t3 = backer_transfer_precedes_drain [OF w [of 5000000] blk [of 5000000] bal [of 5000000],
      where backer = None and to = "''Tdest''"]
  show ?thesis
    using t1 t2 t3 w [of 1000000] blk [of 1000000] bal [of 1000000]
    by (simp add: ad scenario_backer_sendTrx scenario_transferTRC20Token
        scenario_broadcast_request)
qed

text \<open>
  The empty key is not null, and yet no native transfer is made with it: the funded
  backer pays nothing and the token transfer is constructed at once.
\<close>

theorem empty_backer_counterexample:
  "Some [] \<noteq> (None :: string option)
   \<and> drainTRC20Token (scenario_env (scenario_backed 5000000) scenario_listing) ''Tdest''
       ''TContract'' ''sender'' 6 None (Some []) []
     = (Inr [(''result'', JBool True), (''amount'', JNumber (Fin 5000000))],
        [scenario_request ''wallet/getnowblock'' ''get'' None,
         scenario_request ''v1/accounts/Tsender'' ''get'' None,
         TransferTRC20Token (scenario_wallet ''sender'') ''TContract'' ''Tdest''
           (Number (Fin 5000000)) scenario_block,
         scenario_request ''wallet/broadcasthex'' ''post'' (Some [(''transaction'', ''0a02'')])])"
proof -
  let ?E = "scenario_env (scenario_backed 5000000) scenario_listing"
  show ?thesis
    by (simp add: drainTRC20Token_def call_def await_def construct_def resolve_def Let_def
        truthy_def scenario_fromTronPrivateKey mainnet_is_default scenario_getLatestBlock
        scenario_backed_token_balance scenario_transferTRC20Token scenario_broadcastTransaction with_amount_def
        scenario_wallet_def)
qed

end
